theory Spec2Isabelle
  imports Complex_Main "HOL-Library.Char_ord" "HOL-Library.List_Lexorder" "HOL-Library.Multiset"
begin

chapter \<open>The observatory seeding pipeline\<close>

text \<open>
  A shallow embedding of the package \<^verbatim>\<open>observatory_seeder\<close>: the elevation
  normaliser and the slug of \<^verbatim>\<open>discover.py\<close>, the soft-404 detector of
  \<^verbatim>\<open>url_validator.py\<close>, the output merger of \<^verbatim>\<open>validate.py\<close>, the
  discovery deduplicator of \<^verbatim>\<open>run.py\<close>, the rate-limited downloader of
  \<^verbatim>\<open>download.py\<close> and the checkpoint normaliser of
  \<^verbatim>\<open>normalize_checkpoint.py\<close>.

  Conventions of the embedding.
  \<^item> A Python \<^verbatim>\<open>float\<close> is a \<^typ>\<open>real\<close> that holds the value of an IEEE 754
    double. An arithmetic operation on floats is the exact operation followed by
    \<open>double_round\<close>, the rounding to the nearest double with a tie going to the even
    significand; a decimal literal and a number of a JSON file are read in the same way.
    NaN, the infinities and the overflow beyond the largest double are not part of the
    model.
  \<^item> A Python \<^verbatim>\<open>str\<close> is a \<^typ>\<open>string\<close> whose characters are the code points
    U+0000 to U+00FF; \<^verbatim>\<open>len\<close> counts characters. The tables of the Unicode
    database (\<^verbatim>\<open>str.lower\<close>, \<^verbatim>\<open>str.isspace\<close>, the word characters of
    \<^verbatim>\<open>re\<close>) are written out for this range.
  \<^item> Whatever a function reads from the network, the clock or the file system is an
    argument of its model; whatever it writes is part of the result.
\<close>

section \<open>Numbers\<close>

text \<open>\<^verbatim>\<open>int(x)\<close> on a float truncates towards zero.\<close>

definition py_int :: "real \<Rightarrow> int" where
  "py_int x = (if 0 \<le> x then \<lfloor>x\<rfloor> else \<lceil>x\<rceil>)"

text \<open>Rounding to the nearest integer, a tie to the even neighbour.\<close>

definition round_half_even :: "real \<Rightarrow> int" where
  "round_half_even x =
     (let f = \<lfloor>x\<rfloor>; d = x - of_int f
      in if d < 1 / 2 then f else if 1 / 2 < d then f + 1 else if even f then f else f + 1)"

text \<open>
  The double nearest to a real number. A double is an integer of at most 53 bits times a
  power of two, the exponent of the power not below -1074: a number between \<open>2 ^ k\<close>
  and \<open>2 ^ (k + 1)\<close> is rounded to a multiple of \<open>2 ^ (k - 52)\<close>, a number below
  \<open>2 ^ - 1022\<close> to a multiple of \<open>2 ^ - 1074\<close>.
\<close>

definition pow2 :: "int \<Rightarrow> real" where
  "pow2 e = (if 0 \<le> e then 2 ^ nat e else 1 / 2 ^ nat (- e))"

definition double_round :: "real \<Rightarrow> real" where
  "double_round x =
     (if x = 0 then 0
      else let e = max (\<lfloor>log 2 \<bar>x\<bar>\<rfloor> - 52) (- 1074)
           in of_int (round_half_even (x / pow2 e)) * pow2 e)"

text \<open>
  \<^verbatim>\<open>round(x, n)\<close> on a float: the value of \<open>x\<close> is rounded at the \<open>n\<close>-th decimal,
  a tie to the even neighbour, and the result is the double nearest to that decimal
  number.
\<close>

definition py_round :: "real \<Rightarrow> nat \<Rightarrow> real" where
  "py_round x ndigits =
     double_round (of_int (round_half_even (x * 10 ^ ndigits)) / 10 ^ ndigits)"

section \<open>discover.py: elevation\<close>

definition FEET_TO_METERS :: real where "FEET_TO_METERS = double_round 0.3048"
definition MIN_VALID_ELEVATION :: real where "MIN_VALID_ELEVATION = - 500"
definition MAX_VALID_ELEVATION :: real where "MAX_VALID_ELEVATION = 9000"
definition FEET_THRESHOLD :: real where "FEET_THRESHOLD = 9000"

text \<open>
  The conversion note is a string in the source; \<^verbatim>\<open>f"invalid_value_{raw_elevation}"\<close>
  carries the raw number, kept here as the argument of the constructor.
\<close>

datatype elevation_note =
  meters | converted_from_feet | corrected_sign | no_elevation | invalid_value real

text \<open>
  The three corrections are independent \<^verbatim>\<open>if\<close> statements: one whose inner test fails
  falls through to the next, and to the final \<^verbatim>\<open>return None, ...\<close>. The product
  \<^verbatim>\<open>raw_elevation * FEET_TO_METERS\<close> is a float product, and so is the constant the double
  nearest to 0.3048. The name is only there for logging.
\<close>

definition normalize_elevation :: "real option \<Rightarrow> string \<Rightarrow> real option \<times> elevation_note" where
  "normalize_elevation raw_elevation name =
     (case raw_elevation of
        None \<Rightarrow> (None, no_elevation)
      | Some raw \<Rightarrow>
          if MIN_VALID_ELEVATION \<le> raw \<and> raw \<le> MAX_VALID_ELEVATION then (Some raw, meters)
          else
            let converted = double_round (raw * FEET_TO_METERS)
            in if FEET_THRESHOLD < raw
                  \<and> MIN_VALID_ELEVATION \<le> converted \<and> converted \<le> MAX_VALID_ELEVATION
               then (Some (py_round converted 1), converted_from_feet)
               else if raw < MIN_VALID_ELEVATION
                       \<and> MIN_VALID_ELEVATION \<le> \<bar>raw\<bar> \<and> \<bar>raw\<bar> \<le> MAX_VALID_ELEVATION
               then (Some \<bar>raw\<bar>, corrected_sign)
               else (None, invalid_value raw))"

section \<open>Strings\<close>

text \<open>
  The Unicode tables on U+0000 to U+00FF. \<^verbatim>\<open>str.isspace\<close> holds of the controls
  9 to 13 and 28 to 31, the space, U+0085 and U+00A0. \<^verbatim>\<open>str.lower\<close> maps A to Z and
  U+00C0 to U+00DE (the multiplication sign U+00D7 apart) to the letter 32 places up,
  which is the same character with bit 5 set. \<^verbatim>\<open>str.isalnum\<close> holds of the ASCII
  letters and digits, of the ordinal indicators, the micro sign, the superscript digits,
  the vulgar fractions and the letters from U+00C0 on.
\<close>

definition py_isspace :: "char \<Rightarrow> bool" where
  "py_isspace c =
     (let n = (of_char c :: nat)
      in (9 \<le> n \<and> n \<le> 13) \<or> (28 \<le> n \<and> n \<le> 32) \<or> n = 133 \<or> n = 160)"

definition py_isupper :: "char \<Rightarrow> bool" where
  "py_isupper c =
     (let n = (of_char c :: nat)
      in (65 \<le> n \<and> n \<le> 90) \<or> (192 \<le> n \<and> n \<le> 222 \<and> n \<noteq> 215))"

definition py_lower :: "char \<Rightarrow> char" where
  "py_lower c =
     (if py_isupper c
      then (case c of Char b0 b1 b2 b3 b4 b5 b6 b7 \<Rightarrow> Char b0 b1 b2 b3 b4 True b6 b7)
      else c)"

definition py_isalnum :: "char \<Rightarrow> bool" where
  "py_isalnum c =
     (let n = (of_char c :: nat)
      in (48 \<le> n \<and> n \<le> 57) \<or> (65 \<le> n \<and> n \<le> 90) \<or> (97 \<le> n \<and> n \<le> 122)
         \<or> n = 170 \<or> n = 178 \<or> n = 179 \<or> n = 181 \<or> n = 185 \<or> n = 186
         \<or> (188 \<le> n \<and> n \<le> 190) \<or> (192 \<le> n \<and> n \<le> 214)
         \<or> (216 \<le> n \<and> n \<le> 246) \<or> 248 \<le> n)"

text \<open>\<^verbatim>\<open>s.lower()\<close>, \<^verbatim>\<open>s.strip()\<close>, \<^verbatim>\<open>s.strip(chars)\<close>, \<^verbatim>\<open>s.startswith(p)\<close>
  and \<^verbatim>\<open>needle in s\<close>.\<close>

definition str_lower :: "string \<Rightarrow> string" where
  "str_lower s = map py_lower s"

definition str_strip_by :: "(char \<Rightarrow> bool) \<Rightarrow> string \<Rightarrow> string" where
  "str_strip_by p s = rev (dropWhile p (rev (dropWhile p s)))"

definition str_strip :: "string \<Rightarrow> string" where
  "str_strip s = str_strip_by py_isspace s"

definition str_strip_chars :: "string \<Rightarrow> string \<Rightarrow> string" where
  "str_strip_chars chars s = str_strip_by (\<lambda>c. c \<in> set chars) s"

fun startswith :: "string \<Rightarrow> string \<Rightarrow> bool" where
  "startswith s [] = True"
| "startswith [] (p # ps) = False"
| "startswith (c # cs) (p # ps) = (c = p \<and> startswith cs ps)"

fun str_contains :: "string \<Rightarrow> string \<Rightarrow> bool" where
  "str_contains needle [] = (needle = [])"
| "str_contains needle (c # cs) = (startswith (c # cs) needle \<or> str_contains needle cs)"

section \<open>The regular expressions of the package\<close>

text \<open>
  Every pattern of the package is an alternation of sequences of pieces: a character, a
  character set or \<^verbatim>\<open>\\s\<close>, taken once or under a greedy \<^verbatim>\<open>+\<close> or \<^verbatim>\<open>*\<close>; the
  word boundary \<^verbatim>\<open>\\b\<close>; and the two ends of the one capturing group. A pattern is
  written as the list of its alternatives, each the list of its pieces.
\<close>

datatype citem = CChar char | CRange char char | CSpace

datatype atom = Lit char | Cls "citem list" | NCls "citem list" | Ws

datatype piece = One atom | Plus atom | Star atom | WordB | GOpen | GClose

type_synonym pattern = "piece list list"

definition chars_between :: "char \<Rightarrow> char \<Rightarrow> char list" where
  "chars_between lo hi = map char_of [of_char lo ..< Suc (of_char hi)]"

text \<open>
  The flag \<open>ic\<close> is \<^verbatim>\<open>re.IGNORECASE\<close>: the pattern's characters are lowered when it
  is compiled, and a character of the text matches when its lower case does.
\<close>

fun citem_match :: "bool \<Rightarrow> citem \<Rightarrow> char \<Rightarrow> bool" where
  "citem_match ic (CChar p) c = (if ic then py_lower c = py_lower p else c = p)"
| "citem_match ic (CRange lo hi) c =
     (if ic then py_lower c \<in> set (map py_lower (chars_between lo hi))
      else (of_char lo :: nat) \<le> of_char c \<and> (of_char c :: nat) \<le> of_char hi)"
| "citem_match ic CSpace c = py_isspace c"

fun atom_match :: "bool \<Rightarrow> atom \<Rightarrow> char \<Rightarrow> bool" where
  "atom_match ic (Lit p) c = (if ic then py_lower c = py_lower p else c = p)"
| "atom_match ic (Cls its) c = list_ex (\<lambda>it. citem_match ic it c) its"
| "atom_match ic (NCls its) c = (\<not> list_ex (\<lambda>it. citem_match ic it c) its)"
| "atom_match ic Ws c = py_isspace c"

text \<open>
  \<^verbatim>\<open>\\b\<close> holds between a word character (alphanumeric or underscore) and a
  character that is none, the two ends of the string counting as none. \<open>prev\<close> is the
  character before the position, \<open>s\<close> the text from the position on.
\<close>

definition at_word_boundary :: "char option \<Rightarrow> string \<Rightarrow> bool" where
  "at_word_boundary prev s =
     ((case prev of None \<Rightarrow> False | Some p \<Rightarrow> py_isalnum p \<or> p = CHR ''_'')
      \<noteq> (case s of [] \<Rightarrow> False | c # _ \<Rightarrow> py_isalnum c \<or> c = CHR ''_''))"

text \<open>
  The backtracking matcher, at one position: the first way to match the pieces, a greedy
  repetition trying the longer match first. It returns the text left after the match and
  the text of the group. \<open>cap\<close> holds the text from the opening of the group on until the
  group closes, and the group's text from then on.
\<close>

fun re_match :: "bool \<Rightarrow> piece list \<Rightarrow> char option \<Rightarrow> string \<Rightarrow> string option
                 \<Rightarrow> (string \<times> string option) option" where
  "re_match ic [] prev s cap = Some (s, cap)"
| "re_match ic (WordB # ps) prev s cap =
     (if at_word_boundary prev s then re_match ic ps prev s cap else None)"
| "re_match ic (GOpen # ps) prev s cap = re_match ic ps prev s (Some s)"
| "re_match ic (GClose # ps) prev s cap =
     re_match ic ps prev s (map_option (\<lambda>s0. take (length s0 - length s) s0) cap)"
| "re_match ic (One a # ps) prev [] cap = None"
| "re_match ic (One a # ps) prev (c # cs) cap =
     (if atom_match ic a c then re_match ic ps (Some c) cs cap else None)"
| "re_match ic (Plus a # ps) prev [] cap = None"
| "re_match ic (Plus a # ps) prev (c # cs) cap =
     (if atom_match ic a c then re_match ic (Star a # ps) (Some c) cs cap else None)"
| "re_match ic (Star a # ps) prev [] cap = re_match ic ps prev [] cap"
| "re_match ic (Star a # ps) prev (c # cs) cap =
     (if atom_match ic a c
      then (case re_match ic (Star a # ps) (Some c) cs cap of
              Some r \<Rightarrow> Some r
            | None \<Rightarrow> re_match ic ps prev (c # cs) cap)
      else re_match ic ps prev (c # cs) cap)"

text \<open>The alternatives are tried in the order they are written.\<close>

fun re_match_alts :: "bool \<Rightarrow> pattern \<Rightarrow> char option \<Rightarrow> string
                      \<Rightarrow> (string \<times> string option) option" where
  "re_match_alts ic [] prev s = None"
| "re_match_alts ic (p # alts) prev s =
     (case re_match ic p prev s None of
        Some r \<Rightarrow> Some r
      | None \<Rightarrow> re_match_alts ic alts prev s)"

text \<open>
  \<^verbatim>\<open>pattern.search(s)\<close>: the leftmost position with a match; the result is the matched
  text and the group, \<open>None\<close> for no match.
\<close>

fun re_search_from :: "bool \<Rightarrow> pattern \<Rightarrow> char option \<Rightarrow> string
                       \<Rightarrow> (string \<times> string option) option" where
  "re_search_from ic alts prev [] =
     (case re_match_alts ic alts prev [] of
        Some (rest, cap) \<Rightarrow> Some ([], cap)
      | None \<Rightarrow> None)"
| "re_search_from ic alts prev (c # cs) =
     (case re_match_alts ic alts prev (c # cs) of
        Some (rest, cap) \<Rightarrow> Some (take (length (c # cs) - length rest) (c # cs), cap)
      | None \<Rightarrow> re_search_from ic alts (Some c) cs)"

definition re_search :: "bool \<Rightarrow> pattern \<Rightarrow> string \<Rightarrow> (string \<times> string option) option" where
  "re_search ic alts s = re_search_from ic alts None s"

text \<open>
  The scan behind \<^verbatim>\<open>findall\<close> and \<^verbatim>\<open>sub\<close>: the text cut, from the left, into the
  non-overlapping matches and the characters between them. After a match the scan goes on
  where the match ended. No pattern that the package hands to \<^verbatim>\<open>findall\<close> or
  \<^verbatim>\<open>sub\<close> matches the empty string; for one that did, the scan records the empty match
  and steps over one character.
\<close>

datatype segment = Matched string | Unmatched char

function re_scan :: "bool \<Rightarrow> pattern \<Rightarrow> char option \<Rightarrow> string \<Rightarrow> segment list" where
  "re_scan ic alts prev [] =
     (case re_match_alts ic alts prev [] of
        Some r \<Rightarrow> [Matched []]
      | None \<Rightarrow> [])"
| "re_scan ic alts prev (c # cs) =
     (case re_match_alts ic alts prev (c # cs) of
        Some (rest, cap) \<Rightarrow>
          if length rest \<le> length cs
          then Matched (take (length (c # cs) - length rest) (c # cs))
                 # re_scan ic alts (Some (last (take (length (c # cs) - length rest) (c # cs)))) rest
          else Matched [] # Unmatched c # re_scan ic alts (Some c) cs
      | None \<Rightarrow> Unmatched c # re_scan ic alts (Some c) cs)"
  by pat_completeness auto
termination
  by (relation "measure (\<lambda>(ic, alts, prev, s). length s)") auto

definition re_findall :: "bool \<Rightarrow> pattern \<Rightarrow> string \<Rightarrow> string list" where
  "re_findall ic alts s =
     concat (map (\<lambda>g. case g of Matched m \<Rightarrow> [m] | Unmatched c \<Rightarrow> []) (re_scan ic alts None s))"

definition re_sub :: "bool \<Rightarrow> pattern \<Rightarrow> string \<Rightarrow> string \<Rightarrow> string" where
  "re_sub ic alts repl s =
     concat (map (\<lambda>g. case g of Matched m \<Rightarrow> repl | Unmatched c \<Rightarrow> [c]) (re_scan ic alts None s))"

text \<open>Writing patterns: a literal word, and words joined by \<^verbatim>\<open>\\s+\<close>.\<close>

definition lit :: "string \<Rightarrow> piece list" where
  "lit w = map (\<lambda>c. One (Lit c)) w"

fun words :: "string list \<Rightarrow> piece list" where
  "words [] = []"
| "words [w] = lit w"
| "words (w # ws) = lit w @ Plus Ws # words ws"

section \<open>url_validator.py: soft-404 detection\<close>

text \<open>
  \<^verbatim>\<open>SOFT_404_PATTERNS\<close>, in the order of the source; \<^verbatim>\<open>SOFT_404_REGEX\<close> is their
  alternation, compiled with \<^verbatim>\<open>re.IGNORECASE\<close>. The two accented letters are U+00E1
  and U+00E9.
\<close>

definition SOFT_404_PATTERNS :: pattern where
  "SOFT_404_PATTERNS =
     [ WordB # lit ''404'' @ [WordB],
       words [''not'', ''found''],
       words [''page'', ''not'', ''found''],
       words [''error'', ''page''],
       words [''does'', ''not'', ''exist''],
       words [''no'', ''longer'', ''available''],
       words [''page'', ''missing''],
       words [''page'', ''unavailable''],
       words [''content'', ''not'', ''found''],
       words [''resource'', ''not'', ''found''],
       lit ''p'' @ One (Cls [CChar CHR ''a'', CChar (CHR 0xE1)])
         # words [''gina'', ''no'', ''encontrada''],
       words [''no'', ''existe''],
       words [''error'', ''404''],
       words [''no'', ''disponible''],
       words [''seite'', ''nicht'', ''gefunden''],
       words [''fehler'', ''404''],
       words [''page'', ''introuvable''],
       words [''page'', ''non'', ''trouv'']
         @ One (Cls [CChar (CHR 0xE9), CChar CHR ''e'']) # lit ''e'',
       words [''under'', ''construction''],
       words [''coming'', ''soon''],
       words [''domain'', ''for'', ''sale''],
       words [''parked'', ''domain''],
       words [''this'', ''domain''],
       words [''buy'', ''this'', ''domain''],
       words [''website'', ''expired''],
       words [''account'', ''suspended''] ]"

definition SOFT_404_REGEX_search :: "string \<Rightarrow> (string \<times> string option) option" where
  "SOFT_404_REGEX_search s = re_search True SOFT_404_PATTERNS s"

definition SOFT_404_REGEX_findall :: "string \<Rightarrow> string list" where
  "SOFT_404_REGEX_findall s = re_findall True SOFT_404_PATTERNS s"

text \<open>The pattern of the title check, \<^verbatim>\<open><title[^>]*>([^<]+)</title>\<close>.\<close>

definition TITLE_PATTERN :: pattern where
  "TITLE_PATTERN =
     [ lit ''<title'' @ Star (NCls [CChar CHR ''>'']) # lit ''>''
         @ GOpen # Plus (NCls [CChar CHR ''<'']) # GClose # lit ''</title>'' ]"

definition MIN_CONTENT_LENGTH :: nat where "MIN_CONTENT_LENGTH = 1000"

definition REQUEST_TIMEOUT :: int where "REQUEST_TIMEOUT = 10"

text \<open>
  What \<^verbatim>\<open>requests.get\<close> gives back: a response, or one of the exceptions that the
  function catches, each under the first \<^verbatim>\<open>except\<close> clause that takes it.
  \<open>resp_content\<close> is the body as bytes; \<open>resp_text\<close> is its decoding, \<open>None\<close> when
  reading \<^verbatim>\<open>response.text\<close> raises.
\<close>

record response =
  resp_status_code :: int
  resp_url :: string
  resp_content :: string
  resp_text :: "string option"

datatype http_result =
  Response response | Timeout | SSLError | ConnectionError | RequestException string

text \<open>The \<^verbatim>\<open>reason\<close> strings of the result, each with the value its f-string prints.\<close>

datatype reason =
    Reason_empty
  | No_URL_provided
  | HTTP_status int
  | Redirect_to string
  | Soft_404_short_page
  | Soft_404_found "string list"
  | Error_in_page_title string
  | Valid
  | Request_timeout
  | SSL_certificate_error
  | Connection_failed
  | Request_error string

record validation =
  valid :: bool
  status_code :: "int option"
  reason :: reason
  final_url :: "string option"
  is_soft_404 :: bool
  content_length :: nat

text \<open>
  \<^verbatim>\<open>validate_website_url(url, timeout)\<close>, with \<^verbatim>\<open>requests.get\<close> as the first
  argument. Each \<^verbatim>\<open>return result\<close> of the source is one branch.
\<close>

definition validate_website_url ::
    "(string \<Rightarrow> int \<Rightarrow> http_result) \<Rightarrow> string \<Rightarrow> int \<Rightarrow> validation" where
  "validate_website_url requests_get url timeout =
     (let result = \<lparr>valid = False, status_code = None, reason = Reason_empty,
                     final_url = None, is_soft_404 = False, content_length = 0\<rparr>
      in if url = [] then result\<lparr>reason := No_URL_provided\<rparr>
         else
           let url' = (if startswith url ''http://'' \<or> startswith url ''https://''
                       then url else ''https://'' @ url)
           in case requests_get url' timeout of
                Timeout \<Rightarrow> result\<lparr>reason := Request_timeout\<rparr>
              | SSLError \<Rightarrow> result\<lparr>reason := SSL_certificate_error\<rparr>
              | ConnectionError \<Rightarrow> result\<lparr>reason := Connection_failed\<rparr>
              | RequestException e \<Rightarrow> result\<lparr>reason := Request_error (take 50 e)\<rparr>
              | Response response \<Rightarrow>
                  let result = result\<lparr>status_code := Some (resp_status_code response),
                                       final_url := Some (resp_url response),
                                       content_length := length (resp_content response)\<rparr>
                  in if 400 \<le> resp_status_code response
                     then result\<lparr>reason := HTTP_status (resp_status_code response)\<rparr>
                     else if resp_status_code response \<in> set [301, 302, 303, 307, 308]
                     then result\<lparr>reason := Redirect_to (resp_url response)\<rparr>
                     else
                       let content = (case resp_text response of
                                        Some t \<Rightarrow> str_lower t
                                      | None \<Rightarrow> [])
                       in if content_length result < MIN_CONTENT_LENGTH
                             \<and> SOFT_404_REGEX_search content \<noteq> None
                          then result\<lparr>is_soft_404 := True, reason := Soft_404_short_page\<rparr>
                          else
                            let content_to_check = take 5000 content;
                                matches = SOFT_404_REGEX_findall content_to_check
                            in if SOFT_404_REGEX_search content_to_check \<noteq> None
                                  \<and> (2 \<le> length matches
                                       \<or> str_contains ''404'' content_to_check)
                               then result\<lparr>is_soft_404 := True,
                                           reason := Soft_404_found (take 3 matches)\<rparr>
                               else
                                 (case re_search True TITLE_PATTERN content of
                                    Some (m, Some group1) \<Rightarrow>
                                      let title = str_lower group1
                                      in if SOFT_404_REGEX_search title \<noteq> None
                                         then result\<lparr>is_soft_404 := True,
                                                     reason := Error_in_page_title (take 50 title)\<rparr>
                                         else result\<lparr>valid := True, reason := Valid\<rparr>
                                  | _ \<Rightarrow> result\<lparr>valid := True, reason := Valid\<rparr>))"

section \<open>discover.py: the observatory and its slug\<close>

record Observatory =
  wikidata_id :: string
  name :: string
  latitude :: real
  longitude :: real
  elevation :: "real option"
  country :: string
  image_url :: "string option"
  website :: "string option"
  phone :: "string option"
  elevation_note :: string

text \<open>
  The property \<^verbatim>\<open>Observatory.slug\<close>. Its three substitutions are
  \<^verbatim>\<open>[^a-z0-9\\s-]\<close> to nothing, \<^verbatim>\<open>[\\s_]+\<close> to a hyphen and \<^verbatim>\<open>-+\<close> to a hyphen.
\<close>

definition slug :: "'a Observatory_scheme \<Rightarrow> string" where
  "slug self =
     (let slug0 = str_lower (name self);
          slug1 = re_sub False
                    [[One (NCls [CRange CHR ''a'' CHR ''z'', CRange CHR ''0'' CHR ''9'',
                                 CSpace, CChar CHR ''-''])]] [] slug0;
          slug2 = re_sub False [[Plus (Cls [CSpace, CChar CHR ''_''])]] ''-'' slug1;
          slug3 = re_sub False [[Plus (Lit CHR ''-'')]] ''-'' slug2;
          slug4 = take 50 (str_strip_chars ''-'' slug3);
          wikidata_suffix = (if wikidata_id self \<noteq> [] then str_lower (wikidata_id self) else [])
      in if wikidata_suffix \<noteq> [] then slug4 @ ''-'' @ wikidata_suffix else slug4)"

text \<open>
  The identifiers that the constructor receives. \<^verbatim>\<open>fetch_observatories\<close>, its only
  caller, passes \<^verbatim>\<open>uri.split('/')[-1]\<close> for the URI of a Wikidata entity, such as
  \<^verbatim>\<open>http://www.wikidata.org/entity/Q188759\<close>: the letter Q and decimal digits after it.
  For a binding without a URI it passes the empty string.
\<close>

definition is_wikidata_id :: "string \<Rightarrow> bool" where
  "is_wikidata_id s =
     (case s of
        [] \<Rightarrow> True
      | c # cs \<Rightarrow> c = CHR ''Q'' \<and> cs \<noteq> [] \<and> list_all (\<lambda>d. CHR ''0'' \<le> d \<and> d \<le> CHR ''9'') cs)"

section \<open>JSON documents and exceptions\<close>

text \<open>
  A value as \<^verbatim>\<open>json.load\<close> builds it. A dictionary is the list of its items in
  insertion order, no two of them under the same key; the dictionaries that
  \<^verbatim>\<open>json.load\<close> builds have string keys, the ones the code fills may have any
  hashable key.
\<close>

datatype json =
    JNull
  | JBool bool
  | JInt int
  | JFloat real
  | JStr string
  | JArr "json list"
  | JObj "(json \<times> json) list"

datatype py_error = KeyError | ValueError | AttributeError | TypeError

text \<open>
  An observatory in \<^verbatim>\<open>discovered.json\<close> and in \<^verbatim>\<open>validated_observatories.json\<close>
  is a dictionary. The three members that the deduplication reads are typed, each
  present or absent: the name is a string and the coordinates are numbers. The other
  members (\<^verbatim>\<open>image_url\<close>, \<^verbatim>\<open>type_metadata\<close>, ...) are carried along unread.
\<close>

record entry =
  entry_name :: "string option"
  entry_latitude :: "real option"
  entry_longitude :: "real option"
  entry_other :: "(string \<times> json) list"

text \<open>
  The two files. Of a file that exists, the readers use the member
  \<^verbatim>\<open>observatories\<close> only, which may be missing.
\<close>

record output_doc =
  doc_version :: string
  doc_source :: string
  doc_generated_at :: string
  doc_total_validated :: nat
  doc_observatories :: "entry list option"

record discovered_doc =
  disc_observatories :: "entry list option"

record files =
  discovery_file :: "discovered_doc option"
  output_file :: "output_doc option"

text \<open>
  Reading the output file, as both readers do: no entries when the file does not exist,
  and \<^verbatim>\<open>data.get('observatories', [])\<close> when it does.
\<close>

definition load_observatories :: "output_doc option \<Rightarrow> entry list" where
  "load_observatories file =
     (case file of
        None \<Rightarrow> []
      | Some data \<Rightarrow> (case doc_observatories data of None \<Rightarrow> [] | Some l \<Rightarrow> l))"

section \<open>validate.py: merging into the output file\<close>

text \<open>
  \<^verbatim>\<open>_truncate_coord\<close>, \<^verbatim>\<open>_normalize_name\<close> and \<^verbatim>\<open>_make_dedupe_key\<close>, without the
  leading underscore. In \<^verbatim>\<open>int(val * multiplier) / multiplier\<close> the multiplier is an
  integer: the product converts it to a float and is rounded to a double, \<^verbatim>\<open>int\<close>
  truncates that double, and the quotient of the two integers is rounded to a double
  again. The substitutions of the name are \<^verbatim>\<open>[^a-z0-9\\s]\<close> to nothing and
  \<^verbatim>\<open>\\s+\<close> to one space.
\<close>

definition truncate_coord :: "real \<Rightarrow> nat \<Rightarrow> real" where
  "truncate_coord val decimals =
     (let multiplier = (10 :: int) ^ decimals
      in double_round
           (of_int (py_int (double_round (val * double_round (of_int multiplier))))
              / of_int multiplier))"

definition normalize_name :: "string \<Rightarrow> string" where
  "normalize_name nm =
     (let normalized = str_strip (str_lower nm);
          normalized = re_sub False
                         [[One (NCls [CRange CHR ''a'' CHR ''z'', CRange CHR ''0'' CHR ''9'',
                                      CSpace])]] [] normalized;
          normalized = re_sub False [[Plus Ws]] '' '' normalized
      in normalized)"

definition make_dedupe_key :: "entry \<Rightarrow> real \<times> real \<times> string" where
  "make_dedupe_key obs =
     (let lat = truncate_coord (case entry_latitude obs of None \<Rightarrow> 0 | Some v \<Rightarrow> v) 3;
          lon = truncate_coord (case entry_longitude obs of None \<Rightarrow> 0 | Some v \<Rightarrow> v) 3;
          nm = normalize_name (case entry_name obs of None \<Rightarrow> [] | Some n \<Rightarrow> n)
      in (lat, lon, nm))"

text \<open>The loop over the new observatories: the list, the set of keys and the counter.\<close>

fun add_new :: "entry list \<Rightarrow> entry list \<Rightarrow> (real \<times> real \<times> string) set \<Rightarrow> nat
                \<Rightarrow> entry list \<times> (real \<times> real \<times> string) set \<times> nat" where
  "add_new [] existing existing_keys added = (existing, existing_keys, added)"
| "add_new (obs # rest) existing existing_keys added =
     (let key = make_dedupe_key obs
      in if key \<notin> existing_keys
         then add_new rest (existing @ [obs]) (insert key existing_keys) (added + 1)
         else add_new rest existing existing_keys added)"

definition OUTPUT_FILE :: string where
  "OUTPUT_FILE = ''seed_data/validated_observatories.json''"

text \<open>
  \<^verbatim>\<open>merge_validated_observatories(new_observatories)\<close>. The clock enters as the
  formatted \<^verbatim>\<open>datetime.utcnow()\<close>, the output file as it is before the call; the result
  is the file after the call and the returned triple.
\<close>

definition merge_validated_observatories ::
    "string \<Rightarrow> entry list \<Rightarrow> output_doc option \<Rightarrow> output_doc option \<times> (string \<times> nat \<times> nat)" where
  "merge_validated_observatories utcnow new_observatories file =
     (let existing = load_observatories file;
          existing_keys = make_dedupe_key ` set existing;
          (existing, existing_keys, added) = add_new new_observatories existing existing_keys 0;
          existing = sort_key (\<lambda>x. str_lower (case entry_name x of None \<Rightarrow> [] | Some n \<Rightarrow> n))
                       existing;
          output = \<lparr>doc_version = ''3.0'',
                    doc_source = ''Wikidata + Claude Code AI validation'',
                    doc_generated_at = utcnow,
                    doc_total_validated = length existing,
                    doc_observatories = Some existing\<rparr>
      in (Some output, (OUTPUT_FILE, length existing, added)))"

text \<open>
  The key that the specification describes, with \<^verbatim>\<open>round(x, 3)\<close> in the place of
  \<^verbatim>\<open>int(x * 1000) / 1000\<close>; the code does not use it.
\<close>

definition spec_dedupe_key :: "entry \<Rightarrow> real \<times> real \<times> string" where
  "spec_dedupe_key obs =
     (py_round (case entry_latitude obs of None \<Rightarrow> 0 | Some v \<Rightarrow> v) 3,
      py_round (case entry_longitude obs of None \<Rightarrow> 0 | Some v \<Rightarrow> v) 3,
      normalize_name (case entry_name obs of None \<Rightarrow> [] | Some n \<Rightarrow> n))"

text \<open>
  The normalisation in the words of the specification: lowercase, keep the letters a to
  z, the digits and the whitespace, and collapse every run of whitespace into one space.
\<close>

function collapse_whitespace :: "string \<Rightarrow> string" where
  "collapse_whitespace [] = []"
| "collapse_whitespace (c # cs) =
     (if py_isspace c then CHR '' '' # collapse_whitespace (dropWhile py_isspace cs)
      else c # collapse_whitespace cs)"
  by pat_completeness auto
termination
  by (relation "measure length") (auto simp add: length_dropWhile_le less_Suc_eq_le)

definition spec_normalize_name :: "string \<Rightarrow> string" where
  "spec_normalize_name nm =
     collapse_whitespace
       (filter (\<lambda>c. (CHR ''a'' \<le> c \<and> c \<le> CHR ''z'') \<or> (CHR ''0'' \<le> c \<and> c \<le> CHR ''9'')
                    \<or> py_isspace c)
          (str_strip (str_lower nm)))"

text \<open>
  The entries of a list whose key is unseen: neither in the given set of keys nor the key
  of an earlier entry of the list.
\<close>

definition unseen_entries :: "entry list \<Rightarrow> (real \<times> real \<times> string) set \<Rightarrow> entry list" where
  "unseen_entries new keys =
     map (\<lambda>i. new ! i)
       (filter (\<lambda>i. make_dedupe_key (new ! i) \<notin> keys \<union> make_dedupe_key ` set (take i new))
          [0..<length new])"

section \<open>run.py: deduplicating the discovery\<close>

text \<open>
  The key of an entry of the output file, \<^verbatim>\<open>(round(obs.get('latitude', 0), 2),
  round(obs.get('longitude', 0), 2))\<close>.
\<close>

definition existing_coords :: "entry \<Rightarrow> real \<times> real" where
  "existing_coords obs =
     (py_round (case entry_latitude obs of None \<Rightarrow> 0 | Some v \<Rightarrow> v) 2,
      py_round (case entry_longitude obs of None \<Rightarrow> 0 | Some v \<Rightarrow> v) 2)"

text \<open>
  The filter loop. \<^verbatim>\<open>obs['latitude']\<close>, \<^verbatim>\<open>obs['longitude']\<close> and, for a duplicate,
  \<^verbatim>\<open>obs['name']\<close> raise \<^verbatim>\<open>KeyError\<close> on an entry without the member.
\<close>

fun dedupe_loop :: "entry list \<Rightarrow> (real \<times> real) set \<Rightarrow> (real \<times> real) set \<Rightarrow> entry list
                    \<Rightarrow> string list \<Rightarrow> py_error + (entry list \<times> string list)" where
  "dedupe_loop [] existing_set seen_coords new_observatories duplicates =
     Inr (new_observatories, duplicates)"
| "dedupe_loop (obs # rest) existing_set seen_coords new_observatories duplicates =
     (case entry_latitude obs of
        None \<Rightarrow> Inl KeyError
      | Some lat \<Rightarrow>
         (case entry_longitude obs of
            None \<Rightarrow> Inl KeyError
          | Some lon \<Rightarrow>
              let key = (py_round lat 2, py_round lon 2)
              in if key \<in> existing_set
                 then (case entry_name obs of
                         None \<Rightarrow> Inl KeyError
                       | Some n \<Rightarrow> dedupe_loop rest existing_set seen_coords new_observatories
                                    (duplicates @ [n]))
                 else if key \<in> seen_coords
                 then (case entry_name obs of
                         None \<Rightarrow> Inl KeyError
                       | Some n \<Rightarrow> dedupe_loop rest existing_set seen_coords new_observatories
                                    (duplicates @ [n @ '' (duplicate coords in batch)'']))
                 else dedupe_loop rest existing_set (insert key seen_coords)
                        (new_observatories @ [obs]) duplicates))"

text \<open>
  \<^verbatim>\<open>run_dedupe()\<close> on the two files: the returned list and the files after the call,
  or the exception that leaves the files as they were. The progress lines it prints are
  left out.
\<close>

definition run_dedupe :: "files \<Rightarrow> py_error + (entry list \<times> files)" where
  "run_dedupe fs =
     (case discovery_file fs of
        None \<Rightarrow> Inr ([], fs)
      | Some data \<Rightarrow>
          let observatories = (case disc_observatories data of None \<Rightarrow> [] | Some l \<Rightarrow> l);
              existing_set = existing_coords ` set (load_observatories (output_file fs))
          in case dedupe_loop observatories existing_set {} [] [] of
               Inl e \<Rightarrow> Inl e
             | Inr (new_observatories, duplicates) \<Rightarrow>
                 Inr (new_observatories,
                      fs\<lparr>discovery_file := Some \<lparr>disc_observatories = Some new_observatories\<rparr>\<rparr>))"

section \<open>download.py: rate limiting\<close>

text \<open>
  The module-level \<^verbatim>\<open>_rate_limit_state\<close> is part of the state of the process, with the
  clock that \<^verbatim>\<open>time.time()\<close> reads and the trace of what the process does: the lines
  it prints, its calls of \<^verbatim>\<open>time.sleep\<close> and its requests. A sleep advances the clock
  by its argument; the time that a request takes is not modelled. \<^verbatim>\<open>time.time()\<close>
  returns the clock as a float.
\<close>

definition GLOBAL_COOLDOWN_SECONDS :: real where "GLOBAL_COOLDOWN_SECONDS = 180"

datatype message =
    Global_cooldown_active real
  | Triggering_global_cooldown
  | Still_rate_limited int int int
  | Max_retries_exceeded
  | Download_error
  | Unexpected_error

datatype event = Print message | Sleep real | Get string

record process =
  downloads_since_break :: nat
  last_429_time :: real
  global_cooldown_until :: real
  clock :: real
  trace :: "event list"

definition py_print :: "message \<Rightarrow> process \<Rightarrow> process" where
  "py_print m p = p\<lparr>trace := trace p @ [Print m]\<rparr>"

definition time_sleep :: "real \<Rightarrow> process \<Rightarrow> process" where
  "time_sleep secs p = p\<lparr>clock := clock p + secs, trace := trace p @ [Sleep secs]\<rparr>"

definition time_time :: "process \<Rightarrow> real" where
  "time_time p = double_round (clock p)"

text \<open>\<^verbatim>\<open>_check_global_cooldown\<close> and \<^verbatim>\<open>_trigger_global_cooldown\<close>.\<close>

definition check_global_cooldown :: "process \<Rightarrow> process" where
  "check_global_cooldown p =
     (let now = time_time p
      in if now < global_cooldown_until p
         then let wait_time = double_round (global_cooldown_until p - now)
              in time_sleep wait_time (py_print (Global_cooldown_active wait_time) p)
         else p)"

definition trigger_global_cooldown :: "process \<Rightarrow> process" where
  "trigger_global_cooldown p =
     (let p = p\<lparr>last_429_time := time_time p\<rparr>;
          p = p\<lparr>global_cooldown_until := double_round (time_time p + GLOBAL_COOLDOWN_SECONDS)\<rparr>;
          p = py_print Triggering_global_cooldown p
      in time_sleep GLOBAL_COOLDOWN_SECONDS p)"

text \<open>
  What one \<^verbatim>\<open>requests.get\<close> with \<^verbatim>\<open>raise_for_status\<close> gives: the content, an
  \<^verbatim>\<open>HTTPError\<close> with the status code of its response (\<open>None\<close> for an error without a
  response), another \<^verbatim>\<open>RequestException\<close>, or any other exception. The network is a
  function from the number of the attempt to its outcome.
\<close>

datatype outcome = Content string | HTTPError "int option" | RequestException | OtherException

text \<open>
  The loop \<^verbatim>\<open>for attempt in range(max_retries + 1)\<close> of \<^verbatim>\<open>download_image\<close>, from a
  given attempt on, and the function itself.
\<close>

function download_attempts ::
    "(nat \<Rightarrow> outcome) \<Rightarrow> string \<Rightarrow> int \<Rightarrow> nat \<Rightarrow> process \<Rightarrow> string option \<times> process" where
  "download_attempts requests_get url max_retries attempt p =
     (if int attempt < max_retries + 1
      then
        let p = p\<lparr>trace := trace p @ [Get url]\<rparr>
        in case requests_get attempt of
             Content b \<Rightarrow> (Some b, p)
           | HTTPError code \<Rightarrow>
               if code = Some 429
               then if attempt = 0
                    then download_attempts requests_get url max_retries (Suc attempt)
                           (trigger_global_cooldown p)
                    else if int attempt < max_retries
                    then let wait_time = 30 * (int attempt + 1)
                         in download_attempts requests_get url max_retries (Suc attempt)
                              (time_sleep (of_int wait_time)
                                 (py_print (Still_rate_limited wait_time (int attempt + 1)
                                              max_retries) p))
                    else (None, py_print Max_retries_exceeded p)
               else (None, py_print Download_error p)
           | RequestException \<Rightarrow> (None, py_print Download_error p)
           | OtherException \<Rightarrow> (None, py_print Unexpected_error p)
      else (None, p))"
  by pat_completeness auto
termination
  by (relation "measure (\<lambda>(g, u, m, a, p). nat (m + 1 - int a))") auto

definition download_image ::
    "(nat \<Rightarrow> outcome) \<Rightarrow> string \<Rightarrow> int \<Rightarrow> process \<Rightarrow> string option \<times> process" where
  "download_image requests_get url max_retries p =
     download_attempts requests_get url max_retries 0 (check_global_cooldown p)"

text \<open>A sequence of calls in one process, each with its network, URL and retries.\<close>

fun download_images ::
    "((nat \<Rightarrow> outcome) \<times> string \<times> int) list \<Rightarrow> process \<Rightarrow> string option list \<times> process" where
  "download_images [] p = ([], p)"
| "download_images ((requests_get, url, max_retries) # calls) p =
     (let (r, p) = download_image requests_get url max_retries p;
          (rs, p) = download_images calls p
      in (r # rs, p))"

text \<open>Reading the trace: how often the global cooldown was triggered.\<close>

definition cooldowns :: "process \<Rightarrow> nat" where
  "cooldowns p = length (filter (\<lambda>e. e = Print Triggering_global_cooldown) (trace p))"

text \<open>
  The handling of a 429 in the words of the specification, as the events of one attempt.
  The global cooldown: the request, the announcement and a sleep of 180 seconds. The
  local backoff of attempt \<open>k\<close>: the request, the announcement and a sleep of
  \<open>30 * (k + 1)\<close> seconds. The attempt that ends the call: the request and the line that
  its outcome prints, with what the call returns.
\<close>

definition cooldown_events :: "string \<Rightarrow> event list" where
  "cooldown_events url = [Get url, Print Triggering_global_cooldown, Sleep 180]"

definition backoff_events :: "string \<Rightarrow> int \<Rightarrow> nat \<Rightarrow> event list" where
  "backoff_events url max_retries k =
     [Get url, Print (Still_rate_limited (30 * (int k + 1)) (int k + 1) max_retries),
      Sleep (30 * (real k + 1))]"

definition last_events :: "string \<Rightarrow> outcome \<Rightarrow> event list" where
  "last_events url out =
     Get url #
     (case out of
        Content b \<Rightarrow> []
      | HTTPError code \<Rightarrow> [Print (if code = Some 429 then Max_retries_exceeded else Download_error)]
      | RequestException \<Rightarrow> [Print Download_error]
      | OtherException \<Rightarrow> [Print Unexpected_error])"

definition returned :: "outcome \<Rightarrow> string option" where
  "returned out = (case out of Content b \<Rightarrow> Some b | _ \<Rightarrow> None)"

section \<open>normalize_checkpoint.py\<close>

text \<open>
  Python's view of a JSON value: its truth value, \<^verbatim>\<open>a or b\<close>, the comparisons
  \<^verbatim>\<open>x == False\<close> and \<^verbatim>\<open>x == True\<close> (which hold of the numbers 0 and 1 as well), and
  \<^verbatim>\<open>str(x)\<close>. For everything but a string \<^verbatim>\<open>str(x)\<close> is \<^verbatim>\<open>repr(x)\<close>, whose
  formatting of numbers and containers is not modelled: \<open>repr\<close> is an argument.
\<close>

fun py_truthy :: "json \<Rightarrow> bool" where
  "py_truthy JNull = False"
| "py_truthy (JBool b) = b"
| "py_truthy (JInt i) = (i \<noteq> 0)"
| "py_truthy (JFloat r) = (r \<noteq> 0)"
| "py_truthy (JStr s) = (s \<noteq> [])"
| "py_truthy (JArr xs) = (xs \<noteq> [])"
| "py_truthy (JObj kvs) = (kvs \<noteq> [])"

definition py_or :: "json \<Rightarrow> json \<Rightarrow> json" where
  "py_or a b = (if py_truthy a then a else b)"

fun num_of :: "json \<Rightarrow> real option" where
  "num_of (JBool b) = Some (if b then 1 else 0)"
| "num_of (JInt i) = Some (of_int i)"
| "num_of (JFloat r) = Some r"
| "num_of v = None"

definition py_eq_False :: "json \<Rightarrow> bool" where
  "py_eq_False v = (num_of v = Some 0)"

definition py_eq_True :: "json \<Rightarrow> bool" where
  "py_eq_True v = (num_of v = Some 1)"

definition py_str :: "(json \<Rightarrow> string) \<Rightarrow> json \<Rightarrow> string" where
  "py_str repr v = (case v of JStr s \<Rightarrow> s | _ \<Rightarrow> repr v)"

text \<open>
  Dictionaries. Keys are hashable values, equal as Python has them: numbers and booleans
  by their value, strings and \<^verbatim>\<open>None\<close> by identity of content. An assignment
  \<^verbatim>\<open>d[k] = v\<close> replaces the value of an equal key where it stands, appends a new item
  otherwise, and raises \<^verbatim>\<open>TypeError\<close> for a list or a dictionary as the key.
\<close>

definition py_key_eq :: "json \<Rightarrow> json \<Rightarrow> bool" where
  "py_key_eq a b = (case num_of a of Some x \<Rightarrow> num_of b = Some x | None \<Rightarrow> a = b)"

fun dict_get :: "(json \<times> json) list \<Rightarrow> json \<Rightarrow> json option" where
  "dict_get [] k = None"
| "dict_get ((k', v) # rest) k = (if py_key_eq k' k then Some v else dict_get rest k)"

definition get_default :: "(json \<times> json) list \<Rightarrow> string \<Rightarrow> json \<Rightarrow> json" where
  "get_default d k dflt = (case dict_get d (JStr k) of None \<Rightarrow> dflt | Some v \<Rightarrow> v)"

definition get :: "(json \<times> json) list \<Rightarrow> string \<Rightarrow> json" where
  "get d k = get_default d k JNull"

fun is_hashable :: "json \<Rightarrow> bool" where
  "is_hashable (JArr xs) = False"
| "is_hashable (JObj kvs) = False"
| "is_hashable v = True"

fun alist_set :: "(json \<times> json) list \<Rightarrow> json \<Rightarrow> json \<Rightarrow> (json \<times> json) list" where
  "alist_set [] k v = [(k, v)]"
| "alist_set ((k', v') # rest) k v =
     (if py_key_eq k' k then (k', v) # rest else (k', v') # alist_set rest k v)"

fun set_item :: "json \<Rightarrow> json \<Rightarrow> json \<Rightarrow> py_error + json" where
  "set_item (JObj d) k v = (if is_hashable k then Inr (JObj (alist_set d k v)) else Inl TypeError)"
| "set_item d k v = Inl TypeError"

record checkpoint =
  batch_num :: int
  validated :: json
  websites_found :: json
  rejection_notes :: json

text \<open>
  The last statement of both loops: \<^verbatim>\<open>item.get("type_metadata", {}).get("website")\<close>
  raises \<^verbatim>\<open>AttributeError\<close> when the member is there and is no dictionary.
\<close>

definition add_website :: "(json \<times> json) list \<Rightarrow> json \<Rightarrow> checkpoint \<Rightarrow> py_error + checkpoint" where
  "add_website item key normalized =
     (case get_default item ''type_metadata'' (JObj []) of
        JObj type_metadata \<Rightarrow>
          if py_truthy (get type_metadata ''website'')
          then (case set_item (websites_found normalized) key (get type_metadata ''website'') of
                  Inl e \<Rightarrow> Inl e
                | Inr w \<Rightarrow> Inr (normalized\<lparr>websites_found := w\<rparr>))
          else Inr normalized
      | _ \<Rightarrow> Inl AttributeError)"

text \<open>
  The body of the loop over \<^verbatim>\<open>data["results"]\<close>. Every \<^verbatim>\<open>item.get\<close> raises
  \<^verbatim>\<open>AttributeError\<close> on an item that is no dictionary, the first of them at once.
\<close>

definition results_item :: "json \<Rightarrow> checkpoint \<Rightarrow> py_error + checkpoint" where
  "results_item item normalized =
     (case item of
        JObj d \<Rightarrow>
          let slug = get d ''slug''
          in if \<not> py_truthy slug then Inr normalized
             else
               let final_url = py_or (py_or (get d ''final_url'') (get d ''image_url''))
                                 (get d ''url'');
                   rejected = (py_eq_False (get d ''accepted'')
                               \<or> get d ''image_status'' = JStr ''rejected'');
                   reason = py_or (get d ''rejection_reason'') (get d ''reason'')
               in case (if rejected \<and> py_truthy reason
                        then set_item (rejection_notes normalized) slug reason
                        else Inr (rejection_notes normalized)) of
                    Inl e \<Rightarrow> Inl e
                  | Inr notes \<Rightarrow>
                      (case set_item (validated normalized) slug
                              (if rejected then JNull else final_url) of
                         Inl e \<Rightarrow> Inl e
                       | Inr v \<Rightarrow>
                           add_website d slug
                             (normalized\<lparr>validated := v, rejection_notes := notes\<rparr>))
      | _ \<Rightarrow> Inl AttributeError)"

text \<open>The body of the loop over a top-level list.\<close>

definition array_item :: "(json \<Rightarrow> string) \<Rightarrow> json \<Rightarrow> checkpoint \<Rightarrow> py_error + checkpoint" where
  "array_item repr item normalized =
     (case item of
        JObj d \<Rightarrow>
          let slug = get d ''slug''
          in if \<not> py_truthy slug then Inr normalized
             else
               let is_accepted =
                     (get d ''image_status'' = JStr ''accepted''
                      \<or> py_eq_True (get d ''accepted'')
                      \<or> (py_truthy (get d ''image_url'')
                          \<and> \<not> str_contains ''rejected''
                                (py_str repr (get_default d ''image_status'' (JStr [])))));
                   final_url = (if is_accepted then get d ''image_url'' else JNull);
                   reason = py_or (get d ''rejection_reason'') (get d ''reason'')
               in case set_item (validated normalized) slug final_url of
                    Inl e \<Rightarrow> Inl e
                  | Inr v \<Rightarrow>
                      (case (if \<not> is_accepted \<and> py_truthy reason
                             then set_item (rejection_notes normalized) slug reason
                             else Inr (rejection_notes normalized)) of
                         Inl e \<Rightarrow> Inl e
                       | Inr notes \<Rightarrow>
                           add_website d slug
                             (normalized\<lparr>validated := v, rejection_notes := notes\<rparr>))
      | _ \<Rightarrow> Inl AttributeError)"

text \<open>A \<^verbatim>\<open>for\<close> loop over the items: the first exception ends it.\<close>

fun for_items :: "(json \<Rightarrow> checkpoint \<Rightarrow> py_error + checkpoint) \<Rightarrow> json list \<Rightarrow> checkpoint
                  \<Rightarrow> py_error + checkpoint" where
  "for_items body [] normalized = Inr normalized"
| "for_items body (item # items) normalized =
     (case body item normalized of
        Inl e \<Rightarrow> Inl e
      | Inr normalized' \<Rightarrow> for_items body items normalized')"

definition normalize_checkpoint :: "(json \<Rightarrow> string) \<Rightarrow> json \<Rightarrow> int \<Rightarrow> py_error + checkpoint" where
  "normalize_checkpoint repr data expected_batch_num =
     (let normalized = \<lparr>batch_num = expected_batch_num, validated = JObj [],
                         websites_found = JObj [], rejection_notes = JObj []\<rparr>
      in case data of
           JObj d \<Rightarrow>
             (case dict_get d (JStr ''validated'') of
                Some (JObj v) \<Rightarrow>
                  Inr (normalized\<lparr>validated := JObj v,
                                  websites_found := get_default d ''websites_found'' (JObj []),
                                  rejection_notes := get_default d ''rejection_notes'' (JObj [])\<rparr>)
              | _ \<Rightarrow>
                  (case dict_get d (JStr ''results'') of
                     Some (JArr items) \<Rightarrow> for_items results_item items normalized
                   | _ \<Rightarrow> Inl ValueError))
         | JArr items \<Rightarrow> for_items (array_item repr) items normalized
         | _ \<Rightarrow> Inl ValueError)"

text \<open>The three shapes, in the words of the specification.\<close>

definition is_canonical :: "json \<Rightarrow> bool" where
  "is_canonical data =
     (case data of
        JObj d \<Rightarrow> (case dict_get d (JStr ''validated'') of Some (JObj v) \<Rightarrow> True | _ \<Rightarrow> False)
      | _ \<Rightarrow> False)"

definition has_results_list :: "json \<Rightarrow> bool" where
  "has_results_list data =
     (case data of
        JObj d \<Rightarrow> (case dict_get d (JStr ''results'') of Some (JArr items) \<Rightarrow> True | _ \<Rightarrow> False)
      | _ \<Rightarrow> False)"

definition is_list :: "json \<Rightarrow> bool" where
  "is_list data = (case data of JArr items \<Rightarrow> True | _ \<Rightarrow> False)"

text \<open>
  An input of the canonical shape whose \<^verbatim>\<open>websites_found\<close> and \<^verbatim>\<open>rejection_notes\<close>,
  where it has them, are dictionaries.
\<close>

definition dict_members :: "json \<Rightarrow> bool" where
  "dict_members data =
     (case data of
        JObj d \<Rightarrow>
          (case get_default d ''websites_found'' (JObj []) of JObj w \<Rightarrow> True | _ \<Rightarrow> False)
          \<and> (case get_default d ''rejection_notes'' (JObj []) of JObj r \<Rightarrow> True | _ \<Rightarrow> False)
      | _ \<Rightarrow> False)"

text \<open>
  The items of the two list shapes, and the items that the loops can take: a dictionary
  whose slug, when it is not empty, is hashable and whose \<^verbatim>\<open>type_metadata\<close>, when it
  is there, is a dictionary.
\<close>

definition checkpoint_items :: "json \<Rightarrow> json list" where
  "checkpoint_items data =
     (case data of
        JObj d \<Rightarrow> (case dict_get d (JStr ''results'') of Some (JArr items) \<Rightarrow> items | _ \<Rightarrow> [])
      | JArr items \<Rightarrow> items
      | _ \<Rightarrow> [])"

definition well_formed_item :: "json \<Rightarrow> bool" where
  "well_formed_item item =
     (case item of
        JObj d \<Rightarrow>
          if py_truthy (get d ''slug'')
          then is_hashable (get d ''slug'')
               \<and> (case get_default d ''type_metadata'' (JObj []) of JObj tm \<Rightarrow> True | _ \<Rightarrow> False)
          else True
      | _ \<Rightarrow> False)"

text \<open>A \<^verbatim>\<open>repr\<close> that prints nothing, for inputs on which it is not consulted or does not matter.\<close>

definition no_repr :: "json \<Rightarrow> string" where
  "no_repr v = []"

text \<open>
  The canonical format of the result: under \<^verbatim>\<open>validated\<close>, \<^verbatim>\<open>websites_found\<close> and
  \<^verbatim>\<open>rejection_notes\<close> it has dictionaries. The two loops keep it so.
\<close>

definition dicts :: "checkpoint \<Rightarrow> bool" where
  "dicts c =
     ((case validated c of JObj v \<Rightarrow> True | _ \<Rightarrow> False)
      \<and> (case websites_found c of JObj w \<Rightarrow> True | _ \<Rightarrow> False)
      \<and> (case rejection_notes c of JObj r \<Rightarrow> True | _ \<Rightarrow> False))"

section \<open>Concrete inputs\<close>

text \<open>
  Two pages of more than a thousand bytes, both served with status 200: one with a title
  and the number 404 in a sentence, one that announces tours.
\<close>

definition page_404_body :: string where
  "page_404_body = ''<title>Lab</title>We helped 404 labs.'' @ replicate 1200 CHR ''x''"

definition page_404 :: response where
  "page_404 = \<lparr>resp_status_code = 200, resp_url = ''https://lab.example/'',
                resp_content = page_404_body, resp_text = Some page_404_body\<rparr>"

definition page_soon_body :: string where
  "page_soon_body = ''Tours coming soon.'' @ replicate 1200 CHR ''x''"

definition page_soon :: response where
  "page_soon = \<lparr>resp_status_code = 200, resp_url = ''https://lab.example/'',
                 resp_content = page_soon_body, resp_text = Some page_soon_body\<rparr>"

text \<open>
  Entries of the two files: an observatory by its name and the decimal numbers that the
  file has as its coordinates, which \<^verbatim>\<open>json.load\<close> reads as doubles, and the output file
  that holds the given entries.
\<close>

definition observatory :: "string \<Rightarrow> real \<Rightarrow> real \<Rightarrow> entry" where
  "observatory nm lat lon =
     \<lparr>entry_name = Some nm, entry_latitude = Some (double_round lat),
      entry_longitude = Some (double_round lon), entry_other = []\<rparr>"

definition output_with :: "entry list \<Rightarrow> output_doc" where
  "output_with obs =
     \<lparr>doc_version = ''3.0'', doc_source = ''Wikidata + Claude Code AI validation'',
      doc_generated_at = ''2026-01-01 00:00:00 UTC'', doc_total_validated = length obs,
      doc_observatories = Some obs\<rparr>"

definition lick_a :: entry where
  "lick_a = observatory ''Lick Observatory'' 37.3416 (- 121.6429)"

definition lick_b :: entry where
  "lick_b = observatory ''Lick Observatory'' 37.3424 (- 121.6429)"

definition keck_1 :: entry where
  "keck_1 = observatory ''Keck I'' 19.8263 (- 155.4747)"

definition keck_2 :: entry where
  "keck_2 = observatory ''Keck II'' 19.8260 (- 155.4742)"

definition subaru :: entry where
  "subaru = observatory ''Subaru Telescope'' 19.8255 (- 155.4761)"

text \<open>
  Two entries with coordinates of three decimals, as \<^verbatim>\<open>fetch_observatories\<close> rounds
  them, one thousandth of a degree of latitude apart.
\<close>

definition saao_a :: entry where
  "saao_a = observatory ''SAAO'' (- 32.379) 20.811"

definition saao_b :: entry where
  "saao_b = observatory ''SAAO'' (- 32.378) 20.811"

text \<open>The Royal Observatory under a given Wikidata identifier.\<close>

definition royal :: "string \<Rightarrow> Observatory" where
  "royal qid = \<lparr>wikidata_id = qid, name = ''Royal Observatory'',
     latitude = double_round 51.477,
     longitude = 0, elevation = None, country = ''United Kingdom'', image_url = None,
     website = None, phone = None, elevation_note = ''no_elevation''\<rparr>"

text \<open>
  A process that has done nothing yet, a network that answers the first attempt with 429
  and the second with an image, and a network that always answers 429.
\<close>

definition fresh_process :: process where
  "fresh_process = \<lparr>downloads_since_break = 0, last_429_time = 0, global_cooldown_until = 0,
                     clock = 0, trace = []\<rparr>"

definition busy_then_image :: "nat \<Rightarrow> outcome" where
  "busy_then_image attempt = (if attempt = 0 then HTTPError (Some 429) else Content ''JPEG'')"

definition always_busy :: "nat \<Rightarrow> outcome" where
  "always_busy attempt = HTTPError (Some 429)"

text \<open>
  One accepted observatory as a checkpoint in each of the three shapes, the first two
  with a batch number of their own, and the canonical result for batch 3.
\<close>

definition canonical_checkpoint :: json where
  "canonical_checkpoint =
     JObj [(JStr ''batch_num'', JInt 99),
           (JStr ''validated'', JObj [(JStr ''lick-observatory-q461613'', JStr ''https://img.example/lick.jpg'')])]"

definition results_checkpoint :: json where
  "results_checkpoint =
     JObj [(JStr ''batch_num'', JInt 99),
           (JStr ''results'',
            JArr [JObj [(JStr ''slug'', JStr ''lick-observatory-q461613''),
                        (JStr ''final_url'', JStr ''https://img.example/lick.jpg'')]])]"

definition array_checkpoint :: json where
  "array_checkpoint =
     JArr [JObj [(JStr ''slug'', JStr ''lick-observatory-q461613''),
                 (JStr ''image_url'', JStr ''https://img.example/lick.jpg''),
                 (JStr ''image_status'', JStr ''accepted'')]]"

definition lick_checkpoint :: checkpoint where
  "lick_checkpoint =
     \<lparr>batch_num = 3,
      validated = JObj [(JStr ''lick-observatory-q461613'', JStr ''https://img.example/lick.jpg'')],
      websites_found = JObj [], rejection_notes = JObj []\<rparr>"

chapter \<open>Properties\<close>

section \<open>Numbers\<close>

lemma round_half_even_near: "\<bar>of_int (round_half_even x) - x\<bar> \<le> 1 / 2"
  unfolding round_half_even_def Let_def by (simp; linarith)

lemma pow2_powr: "pow2 e = 2 powr (of_int e)"
  by (simp add: pow2_def powr_realpow [symmetric] powr_minus field_simps)

lemma pow2_pos: "0 < pow2 e"
  by (simp add: pow2_powr)

lemma pow2_mono: "a \<le> b \<Longrightarrow> pow2 a \<le> pow2 b"
  by (simp add: pow2_powr)

text \<open>
  The double nearest to a number of a known binade, which is how the rounding is
  evaluated on a given number.
\<close>

lemma double_round_eval:
  assumes "pow2 k \<le> \<bar>x\<bar>" and "\<bar>x\<bar> < pow2 (k + 1)" and "- 1022 \<le> k"
  shows "double_round x = of_int (round_half_even (x / pow2 (k - 52))) * pow2 (k - 52)"
proof -
  have pos: "0 < \<bar>x\<bar>"
    using assms(1) pow2_pos [of k] by linarith
  have "\<lfloor>log 2 \<bar>x\<bar>\<rfloor> = k"
    using assms(1,2) pos by (simp add: floor_log_eq_powr_iff pow2_powr)
  then show ?thesis
    using pos assms(3) by (simp add: double_round_def Let_def)
qed

text \<open>The rounding moves a number by half a unit of its last place at most.\<close>

lemma double_round_near:
  "\<bar>double_round x - x\<bar> \<le> pow2 (max (\<lfloor>log 2 \<bar>x\<bar>\<rfloor> - 52) (- 1074)) / 2"
proof (cases "x = 0")
  case True
  then show ?thesis
    using pow2_pos [of "max (\<lfloor>log 2 \<bar>x\<bar>\<rfloor> - 52) (- 1074)"] by (simp add: double_round_def)
next
  case False
  define p where "p = pow2 (max (\<lfloor>log 2 \<bar>x\<bar>\<rfloor> - 52) (- 1074))"
  have p: "0 < p" unfolding p_def by (rule pow2_pos)
  have d: "double_round x = of_int (round_half_even (x / p)) * p"
    using False by (simp add: double_round_def Let_def p_def)
  have "\<bar>of_int (round_half_even (x / p)) - x / p\<bar> \<le> 1 / 2"
    by (rule round_half_even_near)
  then have "\<bar>of_int (round_half_even (x / p)) - x / p\<bar> * p \<le> 1 / 2 * p"
    using p by (intro mult_right_mono) simp_all
  moreover have "\<bar>of_int (round_half_even (x / p)) - x / p\<bar> * p
                  = \<bar>(of_int (round_half_even (x / p)) - x / p) * p\<bar>"
    using p by (simp add: abs_mult)
  moreover have "(of_int (round_half_even (x / p)) - x / p) * p = double_round x - x"
    using p by (simp add: d left_diff_distrib)
  ultimately show ?thesis unfolding p_def by simp
qed

lemma double_round_near_14:
  assumes "\<bar>x\<bar> < 2 ^ 14"
  shows "\<bar>double_round x - x\<bar> \<le> 1 / 2 ^ 40"
proof (cases "x = 0")
  case True
  then show ?thesis by (simp add: double_round_def)
next
  case False
  have "log 2 \<bar>x\<bar> < 14"
    using assms False by (simp add: log_less_iff powr_realpow [symmetric])
  then have "\<lfloor>log 2 \<bar>x\<bar>\<rfloor> < 14"
    by linarith
  then have "max (\<lfloor>log 2 \<bar>x\<bar>\<rfloor> - 52) (- 1074) \<le> - 39"
    by simp
  from pow2_mono [OF this]
  have "pow2 (max (\<lfloor>log 2 \<bar>x\<bar>\<rfloor> - 52) (- 1074)) \<le> 1 / 2 ^ 39"
    by (simp add: pow2_def)
  then show ?thesis
    using double_round_near [of x] by simp
qed

text \<open>
  \<^verbatim>\<open>round(x, 1)\<close> on an elevation: within a twentieth of \<open>x\<close>, up to the rounding
  of the result to a double.
\<close>

lemma py_round_near_1:
  assumes "\<bar>x\<bar> \<le> 9000"
  shows "\<bar>py_round x 1 - x\<bar> \<le> 1 / 20 + 1 / 2 ^ 40"
proof -
  define d where "d = of_int (round_half_even (x * 10)) / (10 :: real)"
  have "\<bar>of_int (round_half_even (x * 10)) - x * 10\<bar> \<le> 1 / 2"
    by (rule round_half_even_near)
  then have dx: "\<bar>d - x\<bar> \<le> 1 / 20"
    unfolding d_def by (simp add: field_simps abs_le_iff)
  then have "\<bar>d\<bar> < 16384"
    using assms by linarith
  then have "\<bar>d\<bar> < 2 ^ 14"
    by simp
  from double_round_near_14 [OF this] dx
  have "\<bar>double_round d - x\<bar> \<le> 1 / 20 + 1 / 2 ^ 40"
    by linarith
  then show ?thesis
    unfolding py_round_def d_def by simp
qed

text \<open>The integers of the pipeline are doubles.\<close>

lemma double_round_0: "double_round 0 = 0"
  by (simp add: double_round_def)

lemma double_round_1000: "double_round 1000 = 1000"
  using double_round_eval [of 9 1000]
  by (simp add: pow2_def round_half_even_def Let_def)

lemma double_round_180: "double_round 180 = 180"
  using double_round_eval [of 7 180]
  by (simp add: pow2_def round_half_even_def Let_def)

section \<open>Elevation\<close>

text \<open>
  The constant \<^verbatim>\<open>FEET_TO_METERS\<close> as a double, and the products and results of three
  elevations in feet: 29029, 9312.5 and 10001.
\<close>

lemma FEET_TO_METERS_double: "FEET_TO_METERS = 5490788665690109 / 18014398509481984"
  using double_round_eval [of "- 2" "0.3048"]
  by (simp add: FEET_TO_METERS_def pow2_def round_half_even_def Let_def)

lemma converted_everest: "double_round (29029 * FEET_TO_METERS) = 4864260991708929 / 549755813888"
  using double_round_eval [of 13 "29029 * (5490788665690109 / 18014398509481984)"]
  by (simp add: FEET_TO_METERS_double pow2_def round_half_even_def Let_def)

lemma converted_graham: "double_round (9312.5 * FEET_TO_METERS) = 6241817559721575 / 2199023255552"
  using double_round_eval [of 11 "9312.5 * (5490788665690109 / 18014398509481984)"]
  by (simp add: FEET_TO_METERS_double pow2_def round_half_even_def Let_def)

lemma converted_la_silla: "double_round (10001 * FEET_TO_METERS) = 6703293145210789 / 2199023255552"
  using double_round_eval [of 11 "10001 * (5490788665690109 / 18014398509481984)"]
  by (simp add: FEET_TO_METERS_double pow2_def round_half_even_def Let_def)

lemma double_round_3048_3: "double_round 3048.3 = 3351641294949581 / 1099511627776"
  using double_round_eval [of 11 "3048.3"]
  by (simp add: pow2_def round_half_even_def Let_def)

lemma double_round_8848: "double_round 8848 = 8848"
  using double_round_eval [of 13 8848]
  by (simp add: pow2_def round_half_even_def Let_def)

lemma double_round_2838_5: "double_round 2838.5 = 2838.5"
  using double_round_eval [of 11 "2838.5"]
  by (simp add: pow2_def round_half_even_def Let_def)

lemma rounded_elevations:
  "py_round (double_round (29029 * FEET_TO_METERS)) 1 = 8848"
  "py_round (double_round (9312.5 * FEET_TO_METERS)) 1 = 2838.5"
  "py_round (double_round (10001 * FEET_TO_METERS)) 1 = double_round 3048.3"
  unfolding py_round_def converted_everest converted_graham converted_la_silla
  using double_round_8848 double_round_2838_5
  by (simp_all add: round_half_even_def Let_def)

lemma normalize_elevation_converted:
  assumes "9000 < raw" and "- 500 \<le> double_round (raw * FEET_TO_METERS)"
    and "double_round (raw * FEET_TO_METERS) \<le> 9000"
  shows "normalize_elevation (Some raw) nm
           = (Some (py_round (double_round (raw * FEET_TO_METERS)) 1), converted_from_feet)"
  using assms
  by (simp add: normalize_elevation_def MIN_VALID_ELEVATION_def MAX_VALID_ELEVATION_def
        FEET_THRESHOLD_def Let_def)

text \<open>
  Claim C9, as the code has it. For every raw elevation above 9000 whose float product
  with \<^verbatim>\<open>FEET_TO_METERS\<close> lies in [-500, 9000], \<^verbatim>\<open>normalize_elevation\<close> returns
  \<^verbatim>\<open>round(converted, 1)\<close>, that product rounded to one decimal, which is within 0.05 of
  the product up to the rounding of the result to a double (less than \<open>2 ^ - 40\<close>), with
  the note \<^verbatim>\<open>converted_from_feet\<close>. \<^verbatim>\<open>normalize_elevation(29029, "Everest Obs")\<close> is
  8848.0 with that note, inside [8848.0, 8849.0], and 9312.5 feet, whose product is the
  double next above 2838.45, give 2838.5.
\<close>

theorem normalize_elevation_feet:
  "(9000 < raw \<and> - 500 \<le> double_round (raw * FEET_TO_METERS)
      \<and> double_round (raw * FEET_TO_METERS) \<le> 9000 \<longrightarrow>
      normalize_elevation (Some raw) nm
        = (Some (py_round (double_round (raw * FEET_TO_METERS)) 1), converted_from_feet)
      \<and> \<bar>py_round (double_round (raw * FEET_TO_METERS)) 1 - double_round (raw * FEET_TO_METERS)\<bar>
          \<le> 0.05 + 1 / 2 ^ 40)
   \<and> normalize_elevation (Some 29029) ''Everest Obs'' = (Some 8848, converted_from_feet)
   \<and> normalize_elevation (Some 9312.5) ''Mount Graham'' = (Some 2838.5, converted_from_feet)"
proof -
  have "normalize_elevation (Some 29029) ''Everest Obs'' = (Some 8848, converted_from_feet)"
    using normalize_elevation_converted [of 29029 "''Everest Obs''", unfolded rounded_elevations]
    by (simp add: converted_everest)
  moreover
  have "normalize_elevation (Some 9312.5) ''Mount Graham'' = (Some 2838.5, converted_from_feet)"
    using normalize_elevation_converted [of "9312.5" "''Mount Graham''", unfolded rounded_elevations]
    unfolding converted_graham by simp
  moreover
  have "\<bar>py_round (double_round (raw * FEET_TO_METERS)) 1 - double_round (raw * FEET_TO_METERS)\<bar>
          \<le> 0.05 + 1 / 2 ^ 40"
    if "- 500 \<le> double_round (raw * FEET_TO_METERS)" "double_round (raw * FEET_TO_METERS) \<le> 9000"
    using py_round_near_1 [of "double_round (raw * FEET_TO_METERS)"] that by simp
  ultimately show ?thesis
    using normalize_elevation_converted [of raw nm] by simp
qed

theorem normalize_elevation_feet_witness:
  "(9000 :: real) < 10001 \<and> - 500 \<le> double_round (10001 * FEET_TO_METERS)
   \<and> double_round (10001 * FEET_TO_METERS) \<le> 9000
   \<and> normalize_elevation (Some 10001) ''La Silla''
       = (Some (double_round 3048.3), converted_from_feet)
   \<and> \<bar>double_round 3048.3 - double_round (10001 * FEET_TO_METERS)\<bar> \<le> 0.05 + 1 / 2 ^ 40"
  using normalize_elevation_feet [of 10001 "''La Silla''", unfolded rounded_elevations]
  by (simp add: converted_la_silla)

text \<open>
  The claim as the specification words it, "returns the converted value", fails: at
  10001 feet the product is the double 3048.3048000000003 and the function returns the
  double 3048.3.
\<close>

theorem normalize_elevation_feet_counterexample:
  "(9000 :: real) < 10001 \<and> - 500 \<le> double_round (10001 * FEET_TO_METERS)
   \<and> double_round (10001 * FEET_TO_METERS) \<le> 9000
   \<and> normalize_elevation (Some 10001) ''La Silla''
       = (Some (double_round 3048.3), converted_from_feet)
   \<and> double_round 3048.3 \<noteq> double_round (10001 * FEET_TO_METERS)"
  using normalize_elevation_converted [of 10001 "''La Silla''", unfolded rounded_elevations]
  by (simp add: converted_la_silla double_round_3048_3)

section \<open>Regular expressions\<close>

text \<open>\<^verbatim>\<open>search\<close> finds nothing exactly when \<^verbatim>\<open>findall\<close> returns the empty list.\<close>

lemma re_search_from_None_iff:
  "re_search_from ic alts prev s = None \<longleftrightarrow>
   concat (map (\<lambda>g. case g of Matched m \<Rightarrow> [m] | Unmatched c \<Rightarrow> []) (re_scan ic alts prev s)) = []"
  by (induction ic alts prev s rule: re_scan.induct) (auto split: option.splits)

lemma re_findall_Nil_iff: "re_findall ic alts s = [] \<longleftrightarrow> re_search ic alts s = None"
  by (simp add: re_findall_def re_search_def re_search_from_None_iff)

lemma not_Some_pair: "(\<forall>a b. x \<noteq> Some (a, b)) \<longleftrightarrow> x = None"
  by (cases x) auto

section \<open>Soft-404 detection\<close>

lemma SOFT_404_search_findall:
  "SOFT_404_REGEX_search s = None \<longleftrightarrow> SOFT_404_REGEX_findall s = []"
  by (simp add: SOFT_404_REGEX_search_def SOFT_404_REGEX_findall_def re_findall_Nil_iff)

lemma validate_single_hit:
  assumes "url \<noteq> []"
    and "requests_get (if startswith url ''http://'' \<or> startswith url ''https://''
                       then url else ''https://'' @ url) timeout = Response r"
    and "resp_status_code r = 200"
    and "1000 < length (resp_content r)"
    and "resp_text r = Some t"
    and "length (SOFT_404_REGEX_findall (take 5000 (str_lower t))) = 1"
  shows "valid (validate_website_url requests_get url timeout)
           = (\<not> str_contains ''404'' (take 5000 (str_lower t))
              \<and> (case re_search True TITLE_PATTERN (str_lower t) of
                   Some (m, Some group1) \<Rightarrow> SOFT_404_REGEX_search (str_lower group1) = None
                 | _ \<Rightarrow> True))
         \<and> is_soft_404 (validate_website_url requests_get url timeout)
           = (\<not> valid (validate_website_url requests_get url timeout))"
proof -
  have hit: "SOFT_404_REGEX_search (take 5000 (str_lower t)) \<noteq> None"
    using assms(6) by (auto simp: SOFT_404_search_findall)
  show ?thesis
    using assms hit
    by (simp add: validate_website_url_def Let_def MIN_CONTENT_LENGTH_def not_Some_pair
             split: option.splits prod.splits)
qed

text \<open>The filler of the two pages: no pattern begins with the letter x.\<close>

lemma soft_filler_step: "re_match_alts True SOFT_404_PATTERNS prev (CHR ''x'' # cs) = None"
  by (simp add: SOFT_404_PATTERNS_def lit_def py_lower_def py_isupper_def)

lemma soft_end: "re_match_alts True SOFT_404_PATTERNS prev [] = None"
  by (simp add: SOFT_404_PATTERNS_def lit_def)

lemma soft_filler:
  "re_scan True SOFT_404_PATTERNS prev (replicate n CHR ''x'') = replicate n (Unmatched CHR ''x'')"
  by (induction n arbitrary: prev) (simp_all add: soft_filler_step soft_end)

lemma title_filler:
  "re_search_from True TITLE_PATTERN prev (replicate n CHR ''x'') = None"
  by (induction n arbitrary: prev)
     (simp_all add: TITLE_PATTERN_def lit_def py_lower_def py_isupper_def)

lemma contains_404_filler: "\<not> str_contains ''404'' (replicate n CHR ''x'')"
  by (induction n) simp_all

text \<open>The page with the number 404: one hit, the substring 404, a harmless title.\<close>

lemma page_404_lower:
  "str_lower (''<title>Lab</title>We helped 404 labs.'' @ replicate n CHR ''x'')
     = ''<title>lab</title>we helped 404 labs.'' @ replicate n CHR ''x''"
  by (simp add: str_lower_def py_lower_def py_isupper_def)

lemma page_404_findall:
  "SOFT_404_REGEX_findall (''<title>lab</title>we helped 404 labs.'' @ replicate n CHR ''x'')
     = [''404'']"
proof -
  note soft_at =
    arg_cong [OF SOFT_404_PATTERNS_def, of "\<lambda>p. re_match_alts True p prev s" for prev s]
  show ?thesis
    by (simp add: SOFT_404_REGEX_findall_def re_findall_def soft_filler soft_at lit_def
        py_lower_def py_isupper_def py_isspace_def py_isalnum_def at_word_boundary_def)
qed

lemma page_404_contains:
  "str_contains ''404'' (''<title>lab</title>we helped 404 labs.'' @ replicate n CHR ''x'')"
  by simp

lemma page_404_title:
  "re_search True TITLE_PATTERN (''<title>lab</title>we helped 404 labs.'' @ replicate n CHR ''x'')
     = Some (''<title>lab</title>'', Some ''lab'')"
  by (simp add: re_search_def TITLE_PATTERN_def lit_def py_lower_def py_isupper_def)

lemma title_lab: "SOFT_404_REGEX_search ''lab'' = None"
proof -
  note soft_at =
    arg_cong [OF SOFT_404_PATTERNS_def, of "\<lambda>p. re_match_alts True p prev s" for prev s]
  show ?thesis
    by (simp add: SOFT_404_REGEX_search_def re_search_def soft_at lit_def
        py_lower_def py_isupper_def py_isspace_def py_isalnum_def at_word_boundary_def)
qed

lemma page_404_checked:
  "take 5000 (str_lower page_404_body)
     = ''<title>lab</title>we helped 404 labs.'' @ replicate 1200 CHR ''x''"
  unfolding page_404_body_def page_404_lower by (rule take_all) simp

text \<open>The page that announces tours: one hit, no 404 and no title.\<close>

lemma page_soon_lower:
  "str_lower (''Tours coming soon.'' @ replicate n CHR ''x'')
     = ''tours coming soon.'' @ replicate n CHR ''x''"
  by (simp add: str_lower_def py_lower_def py_isupper_def)

lemma page_soon_findall:
  "SOFT_404_REGEX_findall (''tours coming soon.'' @ replicate n CHR ''x'') = [''coming soon'']"
proof -
  note soft_at =
    arg_cong [OF SOFT_404_PATTERNS_def, of "\<lambda>p. re_match_alts True p prev s" for prev s]
  show ?thesis
    by (simp add: SOFT_404_REGEX_findall_def re_findall_def soft_filler soft_at lit_def
        py_lower_def py_isupper_def py_isspace_def py_isalnum_def at_word_boundary_def)
qed

lemma page_soon_contains:
  "\<not> str_contains ''404'' (''tours coming soon.'' @ replicate n CHR ''x'')"
  by (simp add: contains_404_filler)

lemma page_soon_title:
  "re_search True TITLE_PATTERN (''tours coming soon.'' @ replicate n CHR ''x'') = None"
proof -
  note title_at =
    arg_cong [OF TITLE_PATTERN_def, of "\<lambda>p. re_match_alts True p prev s" for prev s]
  show ?thesis
    by (simp add: re_search_def title_filler title_at lit_def py_lower_def py_isupper_def)
qed

lemma page_soon_checked:
  "take 5000 (str_lower page_soon_body) = ''tours coming soon.'' @ replicate 1200 CHR ''x''"
  unfolding page_soon_body_def page_soon_lower by (rule take_all) simp

text \<open>
  Claim C1, as the code has it. On a response with status 200 and more than 1000 bytes
  whose first 5000 lowercased characters hold exactly one soft-404 hit, the result is
  valid exactly when those characters do not contain the substring 404 and the title,
  if the page has one, matches no pattern; otherwise it is flagged as a soft 404. A
  single hit is tolerated unless the text contains 404: the single hit that is an
  occurrence of 404 is flagged.
\<close>

theorem validate_website_url_single_hit:
  assumes "url \<noteq> []"
    and "requests_get (if startswith url ''http://'' \<or> startswith url ''https://''
                       then url else ''https://'' @ url) timeout = Response r"
    and "resp_status_code r = 200"
    and "1000 < length (resp_content r)"
    and "resp_text r = Some t"
    and "length (SOFT_404_REGEX_findall (take 5000 (str_lower t))) = 1"
  shows "valid (validate_website_url requests_get url timeout)
           = (\<not> str_contains ''404'' (take 5000 (str_lower t))
              \<and> (case re_search True TITLE_PATTERN (str_lower t) of
                   Some (m, Some group1) \<Rightarrow> SOFT_404_REGEX_search (str_lower group1) = None
                 | _ \<Rightarrow> True))
         \<and> is_soft_404 (validate_website_url requests_get url timeout)
           = (\<not> valid (validate_website_url requests_get url timeout))"
  using assms by (rule validate_single_hit)

theorem validate_website_url_single_hit_witness:
  "length (SOFT_404_REGEX_findall (take 5000 (str_lower page_soon_body))) = 1
   \<and> resp_status_code page_soon = 200 \<and> 1000 < length (resp_content page_soon)
   \<and> valid (validate_website_url (\<lambda>u t. Response page_soon) ''lab.example'' 10)
   \<and> \<not> is_soft_404 (validate_website_url (\<lambda>u t. Response page_soon) ''lab.example'' 10)"
proof -
  have one: "length (SOFT_404_REGEX_findall (take 5000 (str_lower page_soon_body))) = 1"
    unfolding page_soon_checked page_soon_findall by simp
  have title: "re_search True TITLE_PATTERN (str_lower page_soon_body) = None"
    unfolding page_soon_body_def page_soon_lower by (rule page_soon_title)
  have no_404: "\<not> str_contains ''404'' (take 5000 (str_lower page_soon_body))"
    unfolding page_soon_checked by (rule page_soon_contains)
  have len: "1000 < length (resp_content page_soon)"
    by (simp add: page_soon_def page_soon_body_def)
  have st: "resp_status_code page_soon = 200" and tx: "resp_text page_soon = Some page_soon_body"
    by (simp_all add: page_soon_def)
  from validate_website_url_single_hit
         [of "''lab.example''" "\<lambda>u t. Response page_soon" 10 page_soon page_soon_body,
          OF _ _ st len tx one]
  show ?thesis
    using one no_404 title st len by simp
qed

text \<open>
  The claim as the specification words it fails on the page with the number 404: the
  status is 200, the body has 1237 bytes, the only hit is the incidental 404, the title
  matches no pattern, and the page is flagged.
\<close>

theorem validate_website_url_single_404_counterexample:
  "resp_status_code page_404 = 200 \<and> 1000 < length (resp_content page_404)
   \<and> SOFT_404_REGEX_findall (take 5000 (str_lower page_404_body)) = [''404'']
   \<and> re_search True TITLE_PATTERN (str_lower page_404_body)
       = Some (''<title>lab</title>'', Some ''lab'')
   \<and> SOFT_404_REGEX_search (str_lower ''lab'') = None
   \<and> valid (validate_website_url (\<lambda>u t. Response page_404) ''lab.example'' 10) = False
   \<and> is_soft_404 (validate_website_url (\<lambda>u t. Response page_404) ''lab.example'' 10) = True"
proof -
  have one: "SOFT_404_REGEX_findall (take 5000 (str_lower page_404_body)) = [''404'']"
    unfolding page_404_checked by (rule page_404_findall)
  then have "length (SOFT_404_REGEX_findall (take 5000 (str_lower page_404_body))) = 1"
    by simp
  from validate_single_hit
         [of "''lab.example''" "\<lambda>u t. Response page_404" 10 page_404 page_404_body,
          OF _ _ _ _ _ this]
  have "valid (validate_website_url (\<lambda>u t. Response page_404) ''lab.example'' 10) = False
        \<and> is_soft_404 (validate_website_url (\<lambda>u t. Response page_404) ''lab.example'' 10) = True"
    unfolding page_404_checked using page_404_contains [of 1200]
    by (simp add: page_404_def page_404_body_def)
  moreover have "re_search True TITLE_PATTERN (str_lower page_404_body)
                   = Some (''<title>lab</title>'', Some ''lab'')"
    unfolding page_404_body_def page_404_lower by (rule page_404_title)
  moreover have "SOFT_404_REGEX_search (str_lower ''lab'') = None"
    using title_lab by (simp add: str_lower_def py_lower_def py_isupper_def)
  moreover have "resp_status_code page_404 = 200 \<and> 1000 < length (resp_content page_404)"
    by (simp add: page_404_def page_404_body_def)
  ultimately show ?thesis using one by simp
qed

section \<open>The slug\<close>

lemma slug_eq_iff:
  "name a = name b \<Longrightarrow>
   slug a = slug b \<longleftrightarrow> str_lower (wikidata_id a) = str_lower (wikidata_id b)"
  by (auto simp add: slug_def Let_def str_lower_def)

lemma slug_royal: "slug (royal ''Q188759'') = ''royal-observatory-q188759''"
  by (simp add: royal_def slug_def Let_def re_sub_def str_lower_def py_lower_def py_isupper_def
       py_isspace_def str_strip_chars_def str_strip_by_def)

text \<open>
  In lower case an identifier of Wikidata has the letter q in the place of the Q and
  the same digits, so the lower case tells two identifiers apart.
\<close>

lemma py_lower_digit: "CHR ''0'' \<le> d \<Longrightarrow> d \<le> CHR ''9'' \<Longrightarrow> py_lower d = d"
  by (simp add: py_lower_def py_isupper_def less_eq_char_def)

lemma str_lower_wikidata_id:
  assumes "is_wikidata_id s"
  shows "str_lower s = (case s of [] \<Rightarrow> [] | c # cs \<Rightarrow> CHR ''q'' # cs)"
proof (cases s)
  case Nil
  then show ?thesis by (simp add: str_lower_def)
next
  case (Cons c cs)
  then have c: "c = CHR ''Q''" and cs: "\<forall>d \<in> set cs. CHR ''0'' \<le> d \<and> d \<le> CHR ''9''"
    using assms by (simp_all add: is_wikidata_id_def list_all_iff)
  have "map py_lower cs = cs"
    using cs by (simp add: map_idI py_lower_digit)
  then show ?thesis
    using Cons c by (simp add: str_lower_def py_lower_def py_isupper_def)
qed

lemma str_lower_wikidata_id_inj:
  assumes "is_wikidata_id s" and "is_wikidata_id t" and "str_lower s = str_lower t"
  shows "s = t"
  using assms(3) assms(1,2)
  unfolding str_lower_wikidata_id [OF assms(1)] str_lower_wikidata_id [OF assms(2)]
  by (auto simp add: is_wikidata_id_def split: list.splits)

text \<open>
  Claim C4. The slug is a function of the name and the Wikidata identifier: two
  observatories with the same name and the same identifier have the same slug, whatever
  their other fields. Two observatories with the same name and different identifiers,
  both identifiers as the constructor receives them, have different slugs.
\<close>

theorem slug_same_name:
  "(name a = name b \<and> wikidata_id a = wikidata_id b \<longrightarrow> slug a = slug b)
   \<and> (name a = name b \<and> is_wikidata_id (wikidata_id a) \<and> is_wikidata_id (wikidata_id b)
        \<and> wikidata_id a \<noteq> wikidata_id b \<longrightarrow>
      slug a \<noteq> slug b)"
  using slug_eq_iff [of a b] str_lower_wikidata_id_inj [of "wikidata_id a" "wikidata_id b"]
  by auto

theorem slug_same_name_witness:
  "name (royal ''Q188759'') = name (royal ''Q1537'')
   \<and> is_wikidata_id (wikidata_id (royal ''Q188759''))
   \<and> is_wikidata_id (wikidata_id (royal ''Q1537''))
   \<and> wikidata_id (royal ''Q188759'') \<noteq> wikidata_id (royal ''Q1537'')
   \<and> slug (royal ''Q188759'') = ''royal-observatory-q188759''
   \<and> slug (royal ''Q188759'') \<noteq> slug (royal ''Q1537'')
   \<and> slug (royal ''Q188759'') = slug (royal ''Q188759''\<lparr>country := ''England''\<rparr>)"
proof -
  have h: "name (royal ''Q188759'') = name (royal ''Q1537'')"
    "is_wikidata_id (wikidata_id (royal ''Q188759''))"
    "is_wikidata_id (wikidata_id (royal ''Q1537''))"
    "wikidata_id (royal ''Q188759'') \<noteq> wikidata_id (royal ''Q1537'')"
    by (simp_all add: royal_def is_wikidata_id_def less_eq_char_def)
  have s: "name (royal ''Q188759'') = name (royal ''Q188759''\<lparr>country := ''England''\<rparr>)"
    "wikidata_id (royal ''Q188759'') = wikidata_id (royal ''Q188759''\<lparr>country := ''England''\<rparr>)"
    by simp_all
  have d: "slug (royal ''Q188759'') \<noteq> slug (royal ''Q1537'')"
    using slug_same_name [of "royal ''Q188759''" "royal ''Q1537''"] h by blast
  have e: "slug (royal ''Q188759'') = slug (royal ''Q188759''\<lparr>country := ''England''\<rparr>)"
    using slug_same_name [of "royal ''Q188759''" "royal ''Q188759''\<lparr>country := ''England''\<rparr>"] s
    by blast
  from h d e slug_royal show ?thesis
    by (intro conjI)
qed

section \<open>The name normalisation\<close>

text \<open>
  A substitution of one character set by nothing is a filter, and the substitution of
  \<^verbatim>\<open>\\s+\<close> by a space collapses the runs of whitespace: the normalisation of the code
  is the normalisation that the specification describes.
\<close>

lemma re_scan_One:
  "re_scan False [[One a]] prev s
     = map (\<lambda>c. if atom_match False a c then Matched [c] else Unmatched c) s"
  by (induction s arbitrary: prev) simp_all

lemma re_sub_One_delete:
  "re_sub False [[One a]] [] s = filter (\<lambda>c. \<not> atom_match False a c) s"
  unfolding re_sub_def re_scan_One by (induction s) simp_all

lemma re_match_Star_Ws:
  "re_match False [Star Ws] prev s cap = Some (dropWhile py_isspace s, cap)"
  by (induction s arbitrary: prev) simp_all

lemma re_scan_Plus_Ws:
  "concat (map (\<lambda>g. case g of Matched m \<Rightarrow> '' '' | Unmatched c \<Rightarrow> [c])
             (re_scan False [[Plus Ws]] prev s)) = collapse_whitespace s"
proof (induction s arbitrary: prev rule: collapse_whitespace.induct)
  case 1
  then show ?case by simp
next
  case (2 c cs)
  then show ?case
    by (simp add: re_match_Star_Ws length_dropWhile_le)
qed

lemma normalize_name_spec: "normalize_name nm = spec_normalize_name nm"
proof -
  have keep:
    "(\<lambda>c. \<not> atom_match False
             (NCls [CRange CHR ''a'' CHR ''z'', CRange CHR ''0'' CHR ''9'', CSpace]) c)
       = (\<lambda>c. (CHR ''a'' \<le> c \<and> c \<le> CHR ''z'') \<or> (CHR ''0'' \<le> c \<and> c \<le> CHR ''9'')
                \<or> py_isspace c)"
    by (auto simp add: fun_eq_iff less_eq_char_def)
  show ?thesis
    unfolding normalize_name_def spec_normalize_name_def Let_def re_sub_One_delete keep
    by (simp add: re_sub_def re_scan_Plus_Ws)
qed

lemma normalize_name_mauna_kea: "normalize_name ''  Mauna-Kea   Obs. #2 '' = ''maunakea obs 2''"
  by (simp add: normalize_name_spec spec_normalize_name_def str_strip_def str_strip_by_def
       str_lower_def py_lower_def py_isupper_def py_isspace_def less_eq_char_def)

section \<open>The coordinates as doubles\<close>

text \<open>
  The doubles of the coordinates that follow: for each decimal number the double nearest
  to it, and for a coordinate whose key is taken the double nearest to its product with
  1000.
\<close>

lemma double_values:
  "double_round (46677 / 1250) = 1313840748792329 / 35184372088832"  (* 37.3416 *)
  "double_round (164230093599041125 / 4398046511104) = 5132190424970035 / 137438953472"  (* the double 37.3416, times 1000 *)
  "double_round (23339 / 625) = 82116806018125 / 2199023255552"  (* 37.3424 *)
  "double_round (10264600752265625 / 274877906944) = 1283075094033203 / 34359738368"  (* the double 37.3424, times 1000 *)
  "double_round (- (1216429 / 10000)) = - (2139964527782291 / 17592186044416)"  (* -121.6429 *)
  "double_round (- (267495565972786375 / 2199023255552)) = - (4179618218324787 / 34359738368)"  (* the double -121.6429, times 1000 *)
  "double_round (49559 / 2500) = 348740459270085 / 17592186044416"  (* 19.8236 *)
  "double_round (43592557408760625 / 2199023255552) = 2724534838047539 / 137438953472"  (* the double 19.8236, times 1000 *)
  "double_round (- (1554701 / 10000)) = - (341882365442995 / 2199023255552)"  (* -155.4701 *)
  "double_round (- (42735295680374375 / 274877906944)) = - (5341911960046797 / 34359738368)"  (* the double -155.4701, times 1000 *)
  "double_round (- (32379 / 1000)) = - (4556939135457165 / 140737488355328)"  (* -32.379 *)
  "double_round (- (569617391932145625 / 17592186044416)) = - (8900271748939775 / 274877906944)"  (* the double -32.379, times 1000 *)
  "double_round (- (16189 / 500)) = - (2278399198984405 / 70368744177664)"  (* -32.378 *)
  "double_round (- (284799899873050625 / 8796093022208)) = - 32378"  (* the double -32.378, times 1000 *)
  "double_round (20811 / 1000) = 2928887870162731 / 140737488355328"  (* 20.811 *)
  "double_round (366110983770341375 / 17592186044416) = 20811"  (* the double 20.811, times 1000 *)
  "double_round (3 / 10) = 5404319552844595 / 18014398509481984"  (* 0.3 *)
  "double_round (675539944105574375 / 2251799813685248) = 300"  (* the double 0.3, times 1000 *)
  "double_round (1001 / 1000) = 2254051613498933 / 2251799813685248"  (* 1.001 *)
  "double_round (281756451687366625 / 281474976710656) = 8804889115230207 / 8796093022208"  (* the double 1.001, times 1000 *)
  "double_round (198263 / 10000) = 5580607330758479 / 281474976710656"  (* 19.8263 *)
  "double_round (- (1554747 / 10000)) = - (5470279695199529 / 35184372088832)"  (* -155.4747 *)
  "double_round (9913 / 500) = 2790261444132733 / 140737488355328"  (* 19.8260 *)
  "double_round (- (777371 / 5000)) = - (1367565525753371 / 8796093022208)"  (* -155.4742 *)
  "double_round (39651 / 2000) = 5580382150777111 / 281474976710656"  (* 19.8255 *)
  "double_round (- (1554761 / 10000)) = - (5470328953320453 / 35184372088832)"  (* -155.4761 *)
  "double_round (37341 / 1000) = 5255278552676303 / 140737488355328"  (* 37.341 *)
  "double_round (18671 / 500) = 2627709645082329 / 70368744177664"  (* 37.342 *)
  "double_round (1983 / 100) = 1395412197043077 / 70368744177664"  (* 19.83 *)
  "double_round (1867 / 50) = 1313784453796987 / 35184372088832"  (* 37.34 *)
  "double_round (- (15547 / 100)) = - (5470114328650711 / 35184372088832)"  (* -155.47 *)
  "double_round (- (3887 / 25)) = - (5470466172371599 / 35184372088832)"  (* -155.48 *)
  "double_round (- (3041 / 25)) = - (8559654041771049 / 70368744177664)"  (* -121.64 *)
proof -
  show "double_round (46677 / 1250) = 1313840748792329 / 35184372088832"
    using double_round_eval [of 5 "46677 / 1250"]
    by (simp add: pow2_def round_half_even_def Let_def)
  show "double_round (164230093599041125 / 4398046511104) = 5132190424970035 / 137438953472"
    using double_round_eval [of 15 "164230093599041125 / 4398046511104"]
    by (simp add: pow2_def round_half_even_def Let_def)
  show "double_round (23339 / 625) = 82116806018125 / 2199023255552"
    using double_round_eval [of 5 "23339 / 625"]
    by (simp add: pow2_def round_half_even_def Let_def)
  show "double_round (10264600752265625 / 274877906944) = 1283075094033203 / 34359738368"
    using double_round_eval [of 15 "10264600752265625 / 274877906944"]
    by (simp add: pow2_def round_half_even_def Let_def)
  show "double_round (- (1216429 / 10000)) = - (2139964527782291 / 17592186044416)"
    using double_round_eval [of 6 "- (1216429 / 10000)"]
    by (simp add: pow2_def round_half_even_def Let_def)
  show "double_round (- (267495565972786375 / 2199023255552)) = - (4179618218324787 / 34359738368)"
    using double_round_eval [of 16 "- (267495565972786375 / 2199023255552)"]
    by (simp add: pow2_def round_half_even_def Let_def)
  show "double_round (49559 / 2500) = 348740459270085 / 17592186044416"
    using double_round_eval [of 4 "49559 / 2500"]
    by (simp add: pow2_def round_half_even_def Let_def)
  show "double_round (43592557408760625 / 2199023255552) = 2724534838047539 / 137438953472"
    using double_round_eval [of 14 "43592557408760625 / 2199023255552"]
    by (simp add: pow2_def round_half_even_def Let_def)
  show "double_round (- (1554701 / 10000)) = - (341882365442995 / 2199023255552)"
    using double_round_eval [of 7 "- (1554701 / 10000)"]
    by (simp add: pow2_def round_half_even_def Let_def)
  show "double_round (- (42735295680374375 / 274877906944)) = - (5341911960046797 / 34359738368)"
    using double_round_eval [of 17 "- (42735295680374375 / 274877906944)"]
    by (simp add: pow2_def round_half_even_def Let_def)
  show "double_round (- (32379 / 1000)) = - (4556939135457165 / 140737488355328)"
    using double_round_eval [of 5 "- (32379 / 1000)"]
    by (simp add: pow2_def round_half_even_def Let_def)
  show "double_round (- (569617391932145625 / 17592186044416)) = - (8900271748939775 / 274877906944)"
    using double_round_eval [of 14 "- (569617391932145625 / 17592186044416)"]
    by (simp add: pow2_def round_half_even_def Let_def)
  show "double_round (- (16189 / 500)) = - (2278399198984405 / 70368744177664)"
    using double_round_eval [of 5 "- (16189 / 500)"]
    by (simp add: pow2_def round_half_even_def Let_def)
  show "double_round (- (284799899873050625 / 8796093022208)) = - 32378"
    using double_round_eval [of 14 "- (284799899873050625 / 8796093022208)"]
    by (simp add: pow2_def round_half_even_def Let_def)
  show "double_round (20811 / 1000) = 2928887870162731 / 140737488355328"
    using double_round_eval [of 4 "20811 / 1000"]
    by (simp add: pow2_def round_half_even_def Let_def)
  show "double_round (366110983770341375 / 17592186044416) = 20811"
    using double_round_eval [of 14 "366110983770341375 / 17592186044416"]
    by (simp add: pow2_def round_half_even_def Let_def)
  show "double_round (3 / 10) = 5404319552844595 / 18014398509481984"
    using double_round_eval [of "- 2" "3 / 10"]
    by (simp add: pow2_def round_half_even_def Let_def)
  show "double_round (675539944105574375 / 2251799813685248) = 300"
    using double_round_eval [of 8 "675539944105574375 / 2251799813685248"]
    by (simp add: pow2_def round_half_even_def Let_def)
  show "double_round (1001 / 1000) = 2254051613498933 / 2251799813685248"
    using double_round_eval [of 0 "1001 / 1000"]
    by (simp add: pow2_def round_half_even_def Let_def)
  show "double_round (281756451687366625 / 281474976710656) = 8804889115230207 / 8796093022208"
    using double_round_eval [of 9 "281756451687366625 / 281474976710656"]
    by (simp add: pow2_def round_half_even_def Let_def)
  show "double_round (198263 / 10000) = 5580607330758479 / 281474976710656"
    using double_round_eval [of 4 "198263 / 10000"]
    by (simp add: pow2_def round_half_even_def Let_def)
  show "double_round (- (1554747 / 10000)) = - (5470279695199529 / 35184372088832)"
    using double_round_eval [of 7 "- (1554747 / 10000)"]
    by (simp add: pow2_def round_half_even_def Let_def)
  show "double_round (9913 / 500) = 2790261444132733 / 140737488355328"
    using double_round_eval [of 4 "9913 / 500"]
    by (simp add: pow2_def round_half_even_def Let_def)
  show "double_round (- (777371 / 5000)) = - (1367565525753371 / 8796093022208)"
    using double_round_eval [of 7 "- (777371 / 5000)"]
    by (simp add: pow2_def round_half_even_def Let_def)
  show "double_round (39651 / 2000) = 5580382150777111 / 281474976710656"
    using double_round_eval [of 4 "39651 / 2000"]
    by (simp add: pow2_def round_half_even_def Let_def)
  show "double_round (- (1554761 / 10000)) = - (5470328953320453 / 35184372088832)"
    using double_round_eval [of 7 "- (1554761 / 10000)"]
    by (simp add: pow2_def round_half_even_def Let_def)
  show "double_round (37341 / 1000) = 5255278552676303 / 140737488355328"
    using double_round_eval [of 5 "37341 / 1000"]
    by (simp add: pow2_def round_half_even_def Let_def)
  show "double_round (18671 / 500) = 2627709645082329 / 70368744177664"
    using double_round_eval [of 5 "18671 / 500"]
    by (simp add: pow2_def round_half_even_def Let_def)
  show "double_round (1983 / 100) = 1395412197043077 / 70368744177664"
    using double_round_eval [of 4 "1983 / 100"]
    by (simp add: pow2_def round_half_even_def Let_def)
  show "double_round (1867 / 50) = 1313784453796987 / 35184372088832"
    using double_round_eval [of 5 "1867 / 50"]
    by (simp add: pow2_def round_half_even_def Let_def)
  show "double_round (- (15547 / 100)) = - (5470114328650711 / 35184372088832)"
    using double_round_eval [of 7 "- (15547 / 100)"]
    by (simp add: pow2_def round_half_even_def Let_def)
  show "double_round (- (3887 / 25)) = - (5470466172371599 / 35184372088832)"
    using double_round_eval [of 7 "- (3887 / 25)"]
    by (simp add: pow2_def round_half_even_def Let_def)
  show "double_round (- (3041 / 25)) = - (8559654041771049 / 70368744177664)"
    using double_round_eval [of 6 "- (3041 / 25)"]
    by (simp add: pow2_def round_half_even_def Let_def)
qed

text \<open>
  \<^verbatim>\<open>_truncate_coord\<close> on these coordinates. The product of the double -32.379 with
  1000 is the double next above -32379, which \<^verbatim>\<open>int\<close> truncates to -32378; the
  product of the double 0.3 with 1000 is 300, although the double is below 0.3.
\<close>

lemma truncated_coords:
  "truncate_coord (double_round 37.3416) 3 = double_round 37.341"
  "truncate_coord (double_round 37.3424) 3 = double_round 37.342"
  "truncate_coord (double_round (- 121.6429)) 3 = double_round (- 121.642)"
  "truncate_coord (double_round 19.8236) 3 = double_round 19.823"
  "truncate_coord (double_round (- 155.4701)) 3 = double_round (- 155.47)"
  "truncate_coord (double_round (- 32.379)) 3 = double_round (- 32.378)"
  "truncate_coord (double_round (- 32.378)) 3 = double_round (- 32.378)"
  "truncate_coord (double_round 20.811) 3 = double_round 20.811"
  "truncate_coord (double_round 0.3) 3 = double_round 0.3"
  "truncate_coord (double_round 1.001) 3 = double_round 1"
  by (simp_all add: truncate_coord_def Let_def py_int_def double_values double_round_1000)

text \<open>\<^verbatim>\<open>round(x, 3)\<close> and \<^verbatim>\<open>round(x, 2)\<close> on them.\<close>

lemma rounded_coords:
  "py_round (double_round (- 32.379)) 3 = double_round (- 32.379)"
  "py_round (double_round (- 32.378)) 3 = double_round (- 32.378)"
  "py_round (double_round 20.811) 3 = double_round 20.811"
  "py_round (double_round 19.8263) 2 = double_round 19.83"
  "py_round (double_round (- 155.4747)) 2 = double_round (- 155.47)"
  "py_round (double_round 19.8260) 2 = double_round 19.83"
  "py_round (double_round (- 155.4742)) 2 = double_round (- 155.47)"
  "py_round (double_round 19.8255) 2 = double_round 19.83"
  "py_round (double_round (- 155.4761)) 2 = double_round (- 155.48)"
  "py_round (double_round 37.3416) 2 = double_round 37.34"
  "py_round (double_round 37.3424) 2 = double_round 37.34"
  "py_round (double_round (- 121.6429)) 2 = double_round (- 121.64)"
  by (simp_all add: py_round_def round_half_even_def Let_def double_values)

section \<open>The merge\<close>

lemma unseen_entries_Nil: "unseen_entries [] keys = []"
  by (simp add: unseen_entries_def)

lemma unseen_entries_Cons:
  "unseen_entries (obs # rest) keys =
     (if make_dedupe_key obs \<notin> keys
      then obs # unseen_entries rest (insert (make_dedupe_key obs) keys)
      else unseen_entries rest keys)"
proof -
  have upt: "[0..<length (obs # rest)] = 0 # map Suc [0..<length rest]"
    by (simp add: upt_conv_Cons map_Suc_upt del: upt_Suc)
  show ?thesis
    unfolding unseen_entries_def upt
    by (auto simp add: filter_map comp_def simp del: upt_Suc
             intro!: arg_cong [where f = "map ((!) rest)"] filter_cong)
qed

text \<open>The loop appends the unseen entries, in their order, and counts them.\<close>

lemma add_new_eq:
  "add_new new existing keys added =
     (existing @ unseen_entries new keys, keys \<union> make_dedupe_key ` set new,
      added + length (unseen_entries new keys))"
  by (induction new arbitrary: existing keys added)
     (auto simp add: unseen_entries_Nil unseen_entries_Cons Let_def)

lemma unseen_entries_subset:
  "make_dedupe_key ` set new \<subseteq> keys \<Longrightarrow> unseen_entries new keys = []"
  by (induction new arbitrary: keys) (auto simp add: unseen_entries_Nil unseen_entries_Cons)

lemma unseen_entries_keys:
  "make_dedupe_key ` set (unseen_entries new keys) \<union> keys = make_dedupe_key ` set new \<union> keys"
proof (induction new arbitrary: keys)
  case Nil
  then show ?case by (simp add: unseen_entries_Nil)
next
  case (Cons obs rest)
  show ?case
  proof (cases "make_dedupe_key obs \<in> keys")
    case True
    then show ?thesis using Cons [of keys] by (auto simp add: unseen_entries_Cons)
  next
    case False
    then show ?thesis
      using Cons [of "insert (make_dedupe_key obs) keys"]
      by (simp add: unseen_entries_Cons)
  qed
qed

lemma merge_eq:
  "merge_validated_observatories utcnow new file =
     (let after = sort_key (\<lambda>x. str_lower (case entry_name x of None \<Rightarrow> [] | Some n \<Rightarrow> n))
                    (load_observatories file
                       @ unseen_entries new (make_dedupe_key ` set (load_observatories file)))
      in (Some \<lparr>doc_version = ''3.0'',
                 doc_source = ''Wikidata + Claude Code AI validation'',
                 doc_generated_at = utcnow,
                 doc_total_validated = length after,
                 doc_observatories = Some after\<rparr>,
          OUTPUT_FILE, length after,
          length (unseen_entries new (make_dedupe_key ` set (load_observatories file)))))"
  by (simp add: merge_validated_observatories_def Let_def add_new_eq)

lemma merge_twice:
  assumes "merge_validated_observatories t1 new file = (file1, p1, total1, added1)"
    and "merge_validated_observatories t2 new file1 = (file2, p2, total2, added2)"
  shows "added2 = 0 \<and> total2 = total1"
proof -
  let ?f = "\<lambda>x. str_lower (case entry_name x of None \<Rightarrow> [] | Some n \<Rightarrow> n)"
  let ?ex = "load_observatories file"
  let ?after = "sort_key ?f (?ex @ unseen_entries new (make_dedupe_key ` set ?ex))"
  have l1: "load_observatories file1 = ?after" and t1: "total1 = length ?after"
    using assms(1) by (auto simp add: merge_eq Let_def load_observatories_def)
  have "make_dedupe_key ` set new \<subseteq> make_dedupe_key ` set ?after"
    using unseen_entries_keys [of new "make_dedupe_key ` set ?ex"] by (auto simp add: image_Un)
  then have "unseen_entries new (make_dedupe_key ` set (load_observatories file1)) = []"
    unfolding l1 by (rule unseen_entries_subset)
  then show ?thesis
    using assms(2) l1 t1 by (auto simp add: merge_eq Let_def)
qed

text \<open>
  The keys of the two entries of Lick Observatory, which differ, and of the two entries
  of the SAAO, which are the same, although \<^verbatim>\<open>round(x, 3)\<close> tells their latitudes
  apart.
\<close>

lemma lick_keys:
  "make_dedupe_key lick_a
     = (double_round 37.341, double_round (- 121.642), normalize_name ''Lick Observatory'')"
  "make_dedupe_key lick_b
     = (double_round 37.342, double_round (- 121.642), normalize_name ''Lick Observatory'')"
  unfolding make_dedupe_key_def lick_a_def lick_b_def observatory_def Let_def
    entry.select_convs option.case truncated_coords
  by simp_all

lemma saao_keys:
  "make_dedupe_key saao_a
     = (double_round (- 32.378), double_round 20.811, normalize_name ''SAAO'')"
  "make_dedupe_key saao_b
     = (double_round (- 32.378), double_round 20.811, normalize_name ''SAAO'')"
  unfolding make_dedupe_key_def saao_a_def saao_b_def observatory_def Let_def
    entry.select_convs option.case truncated_coords
  by simp_all

lemma saao_spec_keys:
  "spec_dedupe_key saao_a
     = (double_round (- 32.379), double_round 20.811, normalize_name ''SAAO'')"
  "spec_dedupe_key saao_b
     = (double_round (- 32.378), double_round 20.811, normalize_name ''SAAO'')"
  unfolding spec_dedupe_key_def saao_a_def saao_b_def observatory_def
    entry.select_convs option.case rounded_coords
  by simp_all

lemma merge_lick:
  "snd (merge_validated_observatories utcnow [lick_b] (Some (output_with [lick_a])))
     = (OUTPUT_FILE, 2, 1)"
  by (simp add: merge_eq Let_def load_observatories_def output_with_def
        unseen_entries_Cons unseen_entries_Nil lick_keys double_values)

lemma merge_saao:
  "snd (merge_validated_observatories utcnow [saao_b] (Some (output_with [saao_a])))
     = (OUTPUT_FILE, 1, 0)"
  by (simp add: merge_eq Let_def load_observatories_def output_with_def
        unseen_entries_Cons unseen_entries_Nil saao_keys)

text \<open>
  Claim C2, as the code has it. The deduplication key of an entry is
  \<^verbatim>\<open>int(latitude * 1000) / 1000\<close>, \<^verbatim>\<open>int(longitude * 1000) / 1000\<close> and the normalised
  name. The two numbers are computed on floats: the product with 1000 is rounded to a
  double, that double is truncated towards zero and the quotient by 1000 is rounded to a
  double; a missing coordinate counts as 0. This is not \<^verbatim>\<open>round(x, 3)\<close>, and on a
  coordinate of three decimals it is not always that coordinate. The normalised name is
  the name in lower case, stripped, without the characters other than a to z, 0 to 9 and
  whitespace, every run of whitespace collapsed into one space. The merge appends
  exactly the new entries whose key is neither the key of an entry of the file nor the
  key of an earlier new entry, and counts them.
\<close>

theorem merge_appends_unseen_keys:
  "make_dedupe_key obs
     = (double_round
          (of_int (py_int (double_round
             ((case entry_latitude obs of None \<Rightarrow> 0 | Some v \<Rightarrow> v) * 1000))) / 1000),
        double_round
          (of_int (py_int (double_round
             ((case entry_longitude obs of None \<Rightarrow> 0 | Some v \<Rightarrow> v) * 1000))) / 1000),
        spec_normalize_name (case entry_name obs of None \<Rightarrow> [] | Some n \<Rightarrow> n))
   \<and> add_new new existing (make_dedupe_key ` set existing) 0
     = (existing @ unseen_entries new (make_dedupe_key ` set existing),
        make_dedupe_key ` set existing \<union> make_dedupe_key ` set new,
        length (unseen_entries new (make_dedupe_key ` set existing)))
   \<and> snd (merge_validated_observatories utcnow new file)
     = (OUTPUT_FILE,
        length (load_observatories file)
          + length (unseen_entries new (make_dedupe_key ` set (load_observatories file))),
        length (unseen_entries new (make_dedupe_key ` set (load_observatories file))))"
  by (simp add: make_dedupe_key_def truncate_coord_def Let_def normalize_name_spec add_new_eq
        merge_eq double_round_1000)

theorem merge_appends_unseen_keys_witness:
  "make_dedupe_key (observatory ''  Mauna-Kea   Obs. #2 '' 19.8236 (- 155.4701))
     = (double_round 19.823, double_round (- 155.47), ''maunakea obs 2'')
   \<and> make_dedupe_key saao_a = make_dedupe_key saao_b
   \<and> unseen_entries [saao_b, lick_b, lick_b] (make_dedupe_key ` set [saao_a, lick_a])
       = [lick_b]
   \<and> snd (merge_validated_observatories ''2026-11-04 00:00:00 UTC'' [saao_b, lick_b, lick_b]
            (Some (output_with [saao_a, lick_a])))
     = (OUTPUT_FILE, 3, 1)"
proof -
  have u: "unseen_entries [saao_b, lick_b, lick_b] (make_dedupe_key ` set [saao_a, lick_a])
             = [lick_b]"
    by (simp add: unseen_entries_Cons unseen_entries_Nil lick_keys saao_keys double_values)
  have n: "spec_normalize_name ''  Mauna-Kea   Obs. #2 '' = ''maunakea obs 2''"
    using normalize_name_mauna_kea by (simp only: normalize_name_spec)
  have l: "load_observatories (Some (output_with [saao_a, lick_a])) = [saao_a, lick_a]"
    by (simp add: load_observatories_def output_with_def)
  have t: "double_round (of_int (py_int (double_round (double_round 19.8236 * 1000))) / 1000)
             = double_round 19.823"
    "double_round (of_int (py_int (double_round (double_round (- 155.4701) * 1000))) / 1000)
             = double_round (- 155.47)"
    using truncated_coords(4,5) by (simp_all add: truncate_coord_def double_round_1000)
  note inst =
    merge_appends_unseen_keys
      [of "observatory ''  Mauna-Kea   Obs. #2 '' 19.8236 (- 155.4701)"
          "[saao_b, lick_b, lick_b]" "[saao_a, lick_a]" "''2026-11-04 00:00:00 UTC''"
          "Some (output_with [saao_a, lick_a])"]
  have k: "make_dedupe_key (observatory ''  Mauna-Kea   Obs. #2 '' 19.8236 (- 155.4701))
             = (double_round 19.823, double_round (- 155.47), ''maunakea obs 2'')"
    using inst [THEN conjunct1, unfolded observatory_def entry.select_convs option.case t n]
    by (simp add: observatory_def)
  have m: "snd (merge_validated_observatories ''2026-11-04 00:00:00 UTC''
                 [saao_b, lick_b, lick_b] (Some (output_with [saao_a, lick_a])))
             = (OUTPUT_FILE, 3, 1)"
    using inst l u by simp
  show ?thesis
    using k u m by (simp add: saao_keys)
qed

text \<open>
  The claim as the specification words it fails on coordinates of three decimals: with
  the key \<^verbatim>\<open>(round(lat, 3), round(lon, 3), name)\<close> the second entry of the SAAO has a
  key that the entry of the file does not have, and the merge does not append it.
\<close>

theorem merge_rounded_key_counterexample:
  "spec_dedupe_key saao_b \<notin> spec_dedupe_key ` set [saao_a]
   \<and> snd (merge_validated_observatories ''2026-11-04 00:00:00 UTC'' [saao_b]
            (Some (output_with [saao_a])))
     = (OUTPUT_FILE, 1, 0)"
  by (simp add: saao_spec_keys merge_saao double_values)

text \<open>
  Claim C5. Merging the same list a second time, into the file that the first merge
  wrote, adds nothing and leaves the total as it was.
\<close>

theorem merge_idempotent:
  assumes "merge_validated_observatories t1 new file = (file1, p1, total1, added1)"
    and "merge_validated_observatories t2 new file1 = (file2, p2, total2, added2)"
  shows "added2 = 0 \<and> total2 = total1"
  using assms by (rule merge_twice)

theorem merge_idempotent_witness:
  "snd (merge_validated_observatories ''2026-11-04 00:00:00 UTC'' [lick_b]
         (Some (output_with [lick_a]))) = (OUTPUT_FILE, 2, 1)
   \<and> snd (merge_validated_observatories ''2026-11-05 00:00:00 UTC'' [lick_b]
           (fst (merge_validated_observatories ''2026-11-04 00:00:00 UTC'' [lick_b]
                  (Some (output_with [lick_a]))))) = (OUTPUT_FILE, 2, 0)"
proof -
  let ?m1 = "merge_validated_observatories ''2026-11-04 00:00:00 UTC'' [lick_b]
               (Some (output_with [lick_a]))"
  let ?m2 = "merge_validated_observatories ''2026-11-05 00:00:00 UTC'' [lick_b] (fst ?m1)"
  have first: "snd ?m1 = (OUTPUT_FILE, 2, 1)"
    by (rule merge_lick)
  then have m1: "?m1 = (fst ?m1, OUTPUT_FILE, 2, 1)"
    by (metis prod.collapse)
  have m2: "?m2 = (fst ?m2, fst (snd ?m2), fst (snd (snd ?m2)), snd (snd (snd ?m2)))"
    by simp
  have path: "fst (snd ?m2) = OUTPUT_FILE"
    by (simp add: merge_eq Let_def)
  from merge_idempotent [OF m1 m2]
  have "snd (snd ?m2) = (2, 0)"
    by (metis prod.collapse)
  with path have "snd ?m2 = (OUTPUT_FILE, 2, 0)"
    by (metis prod.collapse)
  with first show ?thesis by simp
qed

text \<open>
  Claim C8. The entries that the file holds before the call are all in the file after
  the call, as they were: the new list of the file is the old list followed by the
  appended entries, sorted stably by the lowercased name.
\<close>

theorem merge_keeps_existing:
  assumes "file = Some data" and "doc_observatories data = Some existing"
  shows "\<exists>doc after.
           fst (merge_validated_observatories utcnow new file) = Some doc
           \<and> doc_observatories doc = Some after
           \<and> after = sort_key (\<lambda>x. str_lower (case entry_name x of None \<Rightarrow> [] | Some n \<Rightarrow> n))
                        (existing @ unseen_entries new (make_dedupe_key ` set existing))
           \<and> mset existing \<subseteq># mset after
           \<and> set existing \<subseteq> set after"
  using assms by (simp add: merge_eq Let_def load_observatories_def)

theorem merge_keeps_existing_witness:
  "\<exists>doc after.
     fst (merge_validated_observatories ''2026-11-04 00:00:00 UTC'' [lick_b]
            (Some (output_with [lick_a]))) = Some doc
     \<and> doc_observatories doc = Some after
     \<and> lick_a \<in> set after"
  using merge_keeps_existing
          [of "Some (output_with [lick_a])" "output_with [lick_a]" "[lick_a]"
              "''2026-11-04 00:00:00 UTC''" "[lick_b]"]
  by (auto simp add: output_with_def)

section \<open>The deduplication of the discovery\<close>

text \<open>
  The run on three entries of which the second has the rounded coordinates of an entry
  of the output file and the others have not: the third stays when its rounded
  coordinates are not those of the first, and goes when they are.
\<close>

lemma run_dedupe_abc:
  assumes "discovery_file fs = Some \<lparr>disc_observatories = Some [A, B, C]\<rparr>"
    and "entry_latitude A = Some latA" and "entry_longitude A = Some lonA"
    and "entry_latitude B = Some latB" and "entry_longitude B = Some lonB"
    and "entry_latitude C = Some latC" and "entry_longitude C = Some lonC"
    and "entry_name B = Some nameB"
    and "(py_round latB 2, py_round lonB 2)
           \<in> existing_coords ` set (load_observatories (output_file fs))"
    and "(py_round latA 2, py_round lonA 2)
           \<notin> existing_coords ` set (load_observatories (output_file fs))"
    and "(py_round latC 2, py_round lonC 2)
           \<notin> existing_coords ` set (load_observatories (output_file fs))"
    and "(py_round latA 2, py_round lonA 2) \<noteq> (py_round latC 2, py_round lonC 2)"
  shows "run_dedupe fs
           = Inr ([A, C], fs\<lparr>discovery_file := Some \<lparr>disc_observatories = Some [A, C]\<rparr>\<rparr>)"
  using assms by (auto simp add: run_dedupe_def Let_def)

lemma run_dedupe_ab:
  assumes "discovery_file fs = Some \<lparr>disc_observatories = Some [A, B, C]\<rparr>"
    and "entry_latitude A = Some latA" and "entry_longitude A = Some lonA"
    and "entry_latitude B = Some latB" and "entry_longitude B = Some lonB"
    and "entry_latitude C = Some latC" and "entry_longitude C = Some lonC"
    and "entry_name B = Some nameB"
    and "(py_round latB 2, py_round lonB 2)
           \<in> existing_coords ` set (load_observatories (output_file fs))"
    and "(py_round latA 2, py_round lonA 2)
           \<notin> existing_coords ` set (load_observatories (output_file fs))"
    and "(py_round latA 2, py_round lonA 2) = (py_round latC 2, py_round lonC 2)"
    and "entry_name C = Some nameC"
  shows "run_dedupe fs
           = Inr ([A], fs\<lparr>discovery_file := Some \<lparr>disc_observatories = Some [A]\<rparr>\<rparr>)"
  using assms by (auto simp add: run_dedupe_def Let_def)

lemma existing_coords_values:
  "existing_coords keck_1 = (double_round 19.83, double_round (- 155.47))"
  "existing_coords keck_2 = (double_round 19.83, double_round (- 155.47))"
  "existing_coords subaru = (double_round 19.83, double_round (- 155.48))"
  "existing_coords lick_a = (double_round 37.34, double_round (- 121.64))"
  "existing_coords lick_b = (double_round 37.34, double_round (- 121.64))"
  unfolding existing_coords_def keck_1_def keck_2_def subaru_def lick_a_def lick_b_def
    observatory_def entry.select_convs option.case rounded_coords
  by simp_all

text \<open>
  Claim C7, as the code has it. \<^verbatim>\<open>discovered.json\<close> holds the entries A, B and C,
  each with its coordinates and B with its name; the coordinates of B rounded to two
  decimals are those of an entry of the output file, those of A and of C are not. When
  A and C do not share their rounded coordinates, \<^verbatim>\<open>run_dedupe\<close> returns A and C and
  writes them back to \<^verbatim>\<open>discovered.json\<close>. When they share them and C has a name, the
  deduplication within the batch removes C as well: \<^verbatim>\<open>run_dedupe\<close> returns A alone and
  writes it back. The output file stays as it is.
\<close>

theorem run_dedupe_removes_B:
  assumes "discovery_file fs = Some \<lparr>disc_observatories = Some [A, B, C]\<rparr>"
    and "entry_latitude A = Some latA" and "entry_longitude A = Some lonA"
    and "entry_latitude B = Some latB" and "entry_longitude B = Some lonB"
    and "entry_latitude C = Some latC" and "entry_longitude C = Some lonC"
    and "entry_name B = Some nameB"
    and "(py_round latB 2, py_round lonB 2)
           \<in> existing_coords ` set (load_observatories (output_file fs))"
    and "(py_round latA 2, py_round lonA 2)
           \<notin> existing_coords ` set (load_observatories (output_file fs))"
    and "(py_round latC 2, py_round lonC 2)
           \<notin> existing_coords ` set (load_observatories (output_file fs))"
  shows "((py_round latA 2, py_round lonA 2) \<noteq> (py_round latC 2, py_round lonC 2) \<longrightarrow>
            run_dedupe fs
              = Inr ([A, C], fs\<lparr>discovery_file := Some \<lparr>disc_observatories = Some [A, C]\<rparr>\<rparr>))
         \<and> ((py_round latA 2, py_round lonA 2) = (py_round latC 2, py_round lonC 2)
              \<and> entry_name C = Some nameC \<longrightarrow>
            run_dedupe fs
              = Inr ([A], fs\<lparr>discovery_file := Some \<lparr>disc_observatories = Some [A]\<rparr>\<rparr>))"
  using run_dedupe_abc [OF assms] run_dedupe_ab [OF assms(1-10)] by blast

theorem run_dedupe_removes_B_witness:
  "run_dedupe \<lparr>discovery_file = Some \<lparr>disc_observatories = Some [keck_1, lick_b, subaru]\<rparr>,
               output_file = Some (output_with [lick_a])\<rparr>
     = Inr ([keck_1, subaru],
            \<lparr>discovery_file = Some \<lparr>disc_observatories = Some [keck_1, subaru]\<rparr>,
             output_file = Some (output_with [lick_a])\<rparr>)
   \<and> run_dedupe \<lparr>discovery_file = Some \<lparr>disc_observatories = Some [keck_1, lick_b, keck_2]\<rparr>,
                  output_file = Some (output_with [lick_a])\<rparr>
     = Inr ([keck_1],
            \<lparr>discovery_file = Some \<lparr>disc_observatories = Some [keck_1]\<rparr>,
             output_file = Some (output_with [lick_a])\<rparr>)"
proof -
  let ?fs = "\<lparr>discovery_file = Some \<lparr>disc_observatories = Some [keck_1, lick_b, subaru]\<rparr>,
              output_file = Some (output_with [lick_a])\<rparr>"
  let ?gs = "\<lparr>discovery_file = Some \<lparr>disc_observatories = Some [keck_1, lick_b, keck_2]\<rparr>,
              output_file = Some (output_with [lick_a])\<rparr>"
  have ex: "existing_coords ` set (load_observatories (output_file ?fs))
              = {(double_round 37.34, double_round (- 121.64))}"
    "existing_coords ` set (load_observatories (output_file ?gs))
              = {(double_round 37.34, double_round (- 121.64))}"
    by (simp_all add: load_observatories_def output_with_def existing_coords_values)
  have first: "run_dedupe ?fs
     = Inr ([keck_1, subaru],
            \<lparr>discovery_file = Some \<lparr>disc_observatories = Some [keck_1, subaru]\<rparr>,
             output_file = Some (output_with [lick_a])\<rparr>)"
    using run_dedupe_removes_B
            [of ?fs keck_1 lick_b subaru "double_round 19.8263" "double_round (- 155.4747)"
                "double_round 37.3424" "double_round (- 121.6429)"
                "double_round 19.8255" "double_round (- 155.4761)" "''Lick Observatory''"
                "''Subaru Telescope''"]
    unfolding ex rounded_coords
    by (simp add: keck_1_def lick_b_def subaru_def observatory_def double_values)
  have second: "run_dedupe ?gs
     = Inr ([keck_1],
            \<lparr>discovery_file = Some \<lparr>disc_observatories = Some [keck_1]\<rparr>,
             output_file = Some (output_with [lick_a])\<rparr>)"
    using run_dedupe_removes_B
            [of ?gs keck_1 lick_b keck_2 "double_round 19.8263" "double_round (- 155.4747)"
                "double_round 37.3424" "double_round (- 121.6429)"
                "double_round 19.8260" "double_round (- 155.4742)" "''Lick Observatory''"
                "''Keck II''"]
    unfolding ex rounded_coords
    by (simp add: keck_1_def lick_b_def keck_2_def observatory_def double_values)
  from first second show ?thesis by simp
qed

text \<open>
  The claim as the specification words it fails when A and C share their rounded
  coordinates: only B matches an entry of the output file, and the deduplication within
  the batch removes C as well.
\<close>

theorem run_dedupe_batch_counterexample:
  "existing_coords lick_b \<in> existing_coords ` set [lick_a]
   \<and> existing_coords keck_1 \<notin> existing_coords ` set [lick_a]
   \<and> existing_coords keck_2 \<notin> existing_coords ` set [lick_a]
   \<and> run_dedupe \<lparr>discovery_file = Some \<lparr>disc_observatories = Some [keck_1, lick_b, keck_2]\<rparr>,
                  output_file = Some (output_with [lick_a])\<rparr>
       = Inr ([keck_1],
              \<lparr>discovery_file = Some \<lparr>disc_observatories = Some [keck_1]\<rparr>,
               output_file = Some (output_with [lick_a])\<rparr>)"
  by (simp add: run_dedupe_def Let_def load_observatories_def output_with_def
        existing_coords_def keck_1_def keck_2_def lick_a_def lick_b_def observatory_def
        py_round_def round_half_even_def double_values)

section \<open>The rate limiting\<close>

declare download_attempts.simps [simp del]

lemma cooldowns_simps [simp]:
  "cooldowns (py_print m p) = cooldowns p + (if m = Triggering_global_cooldown then 1 else 0)"
  "cooldowns (time_sleep d p) = cooldowns p"
  "cooldowns (p\<lparr>trace := trace p @ [Get u]\<rparr>) = cooldowns p"
  "cooldowns (trigger_global_cooldown p) = cooldowns p + 1"
  "cooldowns (check_global_cooldown p) = cooldowns p"
  by (simp_all add: cooldowns_def py_print_def time_sleep_def trigger_global_cooldown_def
        check_global_cooldown_def Let_def)

lemma cooldowns_attempts:
  "cooldowns (snd (download_attempts g u m a p))
     = cooldowns p + (if a = 0 \<and> 0 \<le> m \<and> g 0 = HTTPError (Some 429) then 1 else 0)"
proof (induction g u m a p rule: download_attempts.induct)
  case (1 g u m a p)
  show ?case
    apply (subst download_attempts.simps)
    using 1
    by (auto simp add: Let_def split: outcome.splits)
qed

lemma cooldowns_image:
  "cooldowns (snd (download_image g u m p))
     = cooldowns p + (if 0 \<le> m \<and> g 0 = HTTPError (Some 429) then 1 else 0)"
  by (simp add: download_image_def cooldowns_attempts)

lemma cooldowns_images:
  "cooldowns (snd (download_images calls p))
     = cooldowns p
       + length (filter (\<lambda>(g, u, m). 0 \<le> m \<and> g 0 = HTTPError (Some 429)) calls)"
proof (induction calls arbitrary: p)
  case Nil
  then show ?case by simp
next
  case (Cons c calls)
  obtain g u m where c: "c = (g, u, m)" by (cases c)
  show ?case
    using Cons [of "snd (download_image g u m p)"] cooldowns_image [of g u m p]
    by (simp add: c split_beta Let_def)
qed

text \<open>What the two ways of waiting add to the trace.\<close>

lemma trace_trigger:
  "trace (trigger_global_cooldown (p\<lparr>trace := trace p @ [Get u]\<rparr>))
     = trace p @ cooldown_events u"
  by (simp add: trigger_global_cooldown_def py_print_def time_sleep_def cooldown_events_def
        GLOBAL_COOLDOWN_SECONDS_def Let_def)

lemma trace_backoff:
  "trace (time_sleep (of_int (30 * (int k + 1)))
            (py_print (Still_rate_limited (30 * (int k + 1)) (int k + 1) m)
               (p\<lparr>trace := trace p @ [Get u]\<rparr>)))
     = trace p @ backoff_events u m k"
  by (simp add: py_print_def time_sleep_def backoff_events_def)

text \<open>
  The loop from a later attempt on: every attempt answered 429 below \<open>n\<close> backs off
  and the attempt \<open>n\<close> ends the call.
\<close>

lemma attempts_backoff:
  assumes "\<forall>k. a \<le> k \<and> k < n \<longrightarrow> g k = HTTPError (Some 429)"
    and "0 < a" and "a \<le> n" and "int n \<le> m"
    and "g n = HTTPError (Some 429) \<longrightarrow> int n = m"
  shows "fst (download_attempts g u m a p) = returned (g n)
         \<and> trace (snd (download_attempts g u m a p))
             = trace p @ concat (map (backoff_events u m) [a..<n]) @ last_events u (g n)"
  using assms(1,2,3)
proof (induction "n - a" arbitrary: a p)
  case 0
  then have a: "a = n" by simp
  show ?case
    apply (subst (1 2) download_attempts.simps)
    using 0(3) assms(4,5) unfolding a
    by (auto simp add: Let_def returned_def last_events_def py_print_def
          split: outcome.splits)
next
  case (Suc d)
  then have lt: "a < n" and busy: "g a = HTTPError (Some 429)"
    by auto
  have upt: "[a..<n] = a # [Suc a..<n]"
    using lt by (simp add: upt_conv_Cons)
  let ?q = "time_sleep (of_int (30 * (int a + 1)))
              (py_print (Still_rate_limited (30 * (int a + 1)) (int a + 1) m)
                 (p\<lparr>trace := trace p @ [Get u]\<rparr>))"
  have step: "download_attempts g u m a p = download_attempts g u m (Suc a) ?q"
    apply (subst download_attempts.simps)
    using lt busy Suc.prems(2) assms(4) by (simp add: Let_def)
  have "fst (download_attempts g u m (Suc a) ?q) = returned (g n)
        \<and> trace (snd (download_attempts g u m (Suc a) ?q))
            = trace ?q @ concat (map (backoff_events u m) [Suc a..<n]) @ last_events u (g n)"
    using Suc.hyps(2) Suc.prems lt by (intro Suc.hyps(1)) auto
  then show ?case
    unfolding step upt trace_backoff by simp
qed

text \<open>
  A call whose attempts before \<open>n\<close> are all answered 429 and whose attempt \<open>n\<close> ends
  it, with another answer or as the last attempt allowed.
\<close>

lemma download_image_trace:
  assumes "\<forall>k<n. g k = HTTPError (Some 429)" and "int n \<le> m"
    and "g n = HTTPError (Some 429) \<longrightarrow> 0 < n \<and> int n = m"
  shows "fst (download_image g u m p) = returned (g n)
         \<and> trace (snd (download_image g u m p))
             = trace (check_global_cooldown p)
               @ (if n = 0 then []
                  else cooldown_events u @ concat (map (backoff_events u m) [1..<n]))
               @ last_events u (g n)"
proof (cases "n = 0")
  case True
  show ?thesis
    unfolding download_image_def
    apply (subst (1 2) download_attempts.simps)
    using True assms(2,3)
    by (auto simp add: Let_def returned_def last_events_def py_print_def
          split: outcome.splits)
next
  case False
  let ?q = "check_global_cooldown p"
  let ?r = "trigger_global_cooldown (?q\<lparr>trace := trace ?q @ [Get u]\<rparr>)"
  have busy: "g 0 = HTTPError (Some 429)"
    using False assms(1) by simp
  have step: "download_attempts g u m 0 ?q = download_attempts g u m (Suc 0) ?r"
    apply (subst download_attempts.simps)
    using busy assms(2) by (simp add: Let_def)
  have "fst (download_attempts g u m (Suc 0) ?r) = returned (g n)
        \<and> trace (snd (download_attempts g u m (Suc 0) ?r))
            = trace ?r @ concat (map (backoff_events u m) [Suc 0..<n]) @ last_events u (g n)"
    using assms False by (intro attempts_backoff) auto
  then show ?thesis
    unfolding download_image_def step trace_trigger using False by simp
qed

lemma download_image_no_retry:
  assumes "g 0 = HTTPError (Some 429)"
  shows "fst (download_image g u 0 p) = None
         \<and> trace (snd (download_image g u 0 p))
             = trace (check_global_cooldown p) @ cooldown_events u"
proof -
  let ?q = "check_global_cooldown p"
  let ?r = "trigger_global_cooldown (?q\<lparr>trace := trace ?q @ [Get u]\<rparr>)"
  have first: "download_attempts g u 0 0 ?q = download_attempts g u 0 (Suc 0) ?r"
    apply (subst download_attempts.simps)
    using assms by (simp add: Let_def)
  have last: "download_attempts g u 0 (Suc 0) ?r = (None, ?r)"
    apply (subst download_attempts.simps)
    by simp
  show ?thesis
    unfolding download_image_def first last by (simp add: trace_trigger)
qed

lemma download_image_no_attempt:
  assumes "m < 0"
  shows "download_image g u m p = (None, check_global_cooldown p)"
  unfolding download_image_def
  apply (subst download_attempts.simps)
  using assms by simp

text \<open>
  Claim C3, as the code has it. In every call of \<^verbatim>\<open>download_image\<close>, whatever the
  process did before, a 429 is handled by the number of the attempt that it answers.
  Take a call whose attempts before \<open>n\<close> are all answered 429 and whose attempt \<open>n\<close>,
  not beyond \<^verbatim>\<open>max_retries\<close>, ends it, with another answer or with a 429 at the last
  attempt allowed. After the wait for a cooldown still running, the call does this and
  nothing else: at attempt 0, if answered 429, it announces the global cooldown and
  sleeps 180 seconds; at every attempt \<open>k\<close> from 1 to \<open>n - 1\<close> it announces a local
  backoff and sleeps \<open>30 * (k + 1)\<close> seconds; at attempt \<open>n\<close> it prints the line of the
  outcome and returns, the content if there is one. With \<^verbatim>\<open>max_retries\<close> 0 a first
  attempt answered 429 still triggers the cooldown, and the call returns nothing after
  it; with a negative \<^verbatim>\<open>max_retries\<close> there is no attempt. Over a sequence of calls the
  cooldown is triggered once for every call whose first attempt is answered 429.
\<close>

theorem download_image_cooldown:
  "((\<forall>k<n. g k = HTTPError (Some 429)) \<and> int n \<le> m
      \<and> (g n = HTTPError (Some 429) \<longrightarrow> 0 < n \<and> int n = m) \<longrightarrow>
      fst (download_image g u m p) = returned (g n)
      \<and> trace (snd (download_image g u m p))
          = trace (check_global_cooldown p)
            @ (if n = 0 then []
               else cooldown_events u @ concat (map (backoff_events u m) [1..<n]))
            @ last_events u (g n))
   \<and> (g 0 = HTTPError (Some 429) \<longrightarrow>
        fst (download_image g u 0 p) = None
        \<and> trace (snd (download_image g u 0 p))
            = trace (check_global_cooldown p) @ cooldown_events u)
   \<and> (m < 0 \<longrightarrow> download_image g u m p = (None, check_global_cooldown p))
   \<and> cooldowns (snd (download_images calls p))
     = cooldowns p
       + length (filter (\<lambda>(g, u, m). 0 \<le> m \<and> g 0 = HTTPError (Some 429)) calls)"
  using download_image_trace [of n g m u p] download_image_no_retry [of g u p]
    download_image_no_attempt [of m g u p] cooldowns_images [of calls p]
  by blast

theorem download_image_cooldown_witness:
  "fst (download_image always_busy ''a.jpg'' 3 fresh_process) = None
   \<and> trace (snd (download_image always_busy ''a.jpg'' 3 fresh_process))
     = [Get ''a.jpg'', Print Triggering_global_cooldown, Sleep 180,
        Get ''a.jpg'', Print (Still_rate_limited 60 2 3), Sleep 60,
        Get ''a.jpg'', Print (Still_rate_limited 90 3 3), Sleep 90,
        Get ''a.jpg'', Print Max_retries_exceeded]
   \<and> fst (download_image busy_then_image ''b.jpg'' 3 fresh_process) = Some ''JPEG''
   \<and> trace (snd (download_image busy_then_image ''b.jpg'' 3 fresh_process))
     = [Get ''b.jpg'', Print Triggering_global_cooldown, Sleep 180, Get ''b.jpg'']"
proof -
  have q: "trace (check_global_cooldown fresh_process) = []"
    by (simp add: check_global_cooldown_def fresh_process_def time_time_def double_round_0)
  have three: "[1..<3] = [1, 2 :: nat]"
    by (simp add: upt_rec)
  have busy: "fst (download_image always_busy ''a.jpg'' 3 fresh_process) = None
    \<and> trace (snd (download_image always_busy ''a.jpg'' 3 fresh_process))
     = [Get ''a.jpg'', Print Triggering_global_cooldown, Sleep 180,
        Get ''a.jpg'', Print (Still_rate_limited 60 2 3), Sleep 60,
        Get ''a.jpg'', Print (Still_rate_limited 90 3 3), Sleep 90,
        Get ''a.jpg'', Print Max_retries_exceeded]"
    using download_image_cooldown [of 3 always_busy 3 "''a.jpg''" fresh_process "[]"]
    unfolding q three
    by (simp add: always_busy_def returned_def cooldown_events_def backoff_events_def
          last_events_def)
  have image: "fst (download_image busy_then_image ''b.jpg'' 3 fresh_process) = Some ''JPEG''
    \<and> trace (snd (download_image busy_then_image ''b.jpg'' 3 fresh_process))
     = [Get ''b.jpg'', Print Triggering_global_cooldown, Sleep 180, Get ''b.jpg'']"
    using download_image_cooldown [of 1 busy_then_image 3 "''b.jpg''" fresh_process "[]"]
    unfolding q
    by (simp add: busy_then_image_def returned_def cooldown_events_def last_events_def)
  from busy image show ?thesis by simp
qed

text \<open>
  The claim as the specification words it fails on two calls in one process, each
  answered 429 at its first attempt: the 429 of the second call is not the first of the
  process, and it triggers the global cooldown again, with its sleep of 180 seconds.
\<close>

theorem download_image_second_call_counterexample:
  "busy_then_image 0 = HTTPError (Some 429)
   \<and> trace (snd (download_images
                   [(busy_then_image, ''a.jpg'', 3), (busy_then_image, ''b.jpg'', 3)]
                   fresh_process))
     = [Get ''a.jpg'', Print Triggering_global_cooldown, Sleep 180, Get ''a.jpg'',
        Get ''b.jpg'', Print Triggering_global_cooldown, Sleep 180, Get ''b.jpg'']
   \<and> cooldowns (snd (download_images
                       [(busy_then_image, ''a.jpg'', 3), (busy_then_image, ''b.jpg'', 3)]
                       fresh_process)) = 2"
proof -
  have t: "trace (snd (download_images
                   [(busy_then_image, ''a.jpg'', 3), (busy_then_image, ''b.jpg'', 3)]
                   fresh_process))
     = [Get ''a.jpg'', Print Triggering_global_cooldown, Sleep 180, Get ''a.jpg'',
        Get ''b.jpg'', Print Triggering_global_cooldown, Sleep 180, Get ''b.jpg'']"
    by (simp add: download_image_def download_attempts.simps busy_then_image_def
          fresh_process_def check_global_cooldown_def trigger_global_cooldown_def py_print_def
          time_sleep_def time_time_def double_round_0 double_round_180
          GLOBAL_COOLDOWN_SECONDS_def Let_def)
  show ?thesis
    unfolding cooldowns_def t by (simp add: busy_then_image_def)
qed

section \<open>The checkpoint normaliser\<close>

lemma dicts_iff:
  "dicts c \<longleftrightarrow> (\<exists>v. validated c = JObj v) \<and> (\<exists>w. websites_found c = JObj w)
                \<and> (\<exists>r. rejection_notes c = JObj r)"
  by (auto simp add: dicts_def split: json.splits)

lemma add_website_result:
  assumes "dicts c" and "is_hashable k"
  shows "if (case get_default d ''type_metadata'' (JObj []) of JObj tm \<Rightarrow> True | _ \<Rightarrow> False)
         then \<exists>c'. add_website d k c = Inr c' \<and> dicts c' \<and> batch_num c' = batch_num c
         else add_website d k c = Inl AttributeError"
  using assms by (auto simp add: add_website_def dicts_iff split: json.splits)

lemma results_item_result:
  assumes "dicts c"
  shows "if well_formed_item item
         then \<exists>c'. results_item item c = Inr c' \<and> dicts c' \<and> batch_num c' = batch_num c
         else results_item item c = Inl AttributeError \<or> results_item item c = Inl TypeError"
proof (cases item)
  case (JObj d)
  show ?thesis
  proof (cases "py_truthy (get d ''slug'')")
    case False
    then show ?thesis using assms JObj by (simp add: results_item_def well_formed_item_def)
  next
    case True
    show ?thesis
    proof (cases "is_hashable (get d ''slug'')")
      case False
      then show ?thesis
        using assms JObj True
        by (auto simp add: results_item_def well_formed_item_def dicts_iff Let_def)
    next
      case h: True
      obtain v w r where f: "validated c = JObj v" "websites_found c = JObj w"
          "rejection_notes c = JObj r"
        using assms by (auto simp add: dicts_iff)
      have "if well_formed_item item
            then \<exists>c'. add_website d (get d ''slug'') c1 = Inr c' \<and> dicts c'
                       \<and> batch_num c' = batch_num c
            else add_website d (get d ''slug'') c1 = Inl AttributeError"
        if "dicts c1" "batch_num c1 = batch_num c" for c1
        using add_website_result [OF that(1) h, of d] that(2) JObj True h
        by (auto simp add: well_formed_item_def)
      then show ?thesis
        using JObj True h f
        by (auto simp add: results_item_def Let_def dicts_iff)
    qed
  qed
qed (simp_all add: results_item_def well_formed_item_def)

lemma array_item_result:
  assumes "dicts c"
  shows "if well_formed_item item
         then \<exists>c'. array_item repr item c = Inr c' \<and> dicts c' \<and> batch_num c' = batch_num c
         else array_item repr item c = Inl AttributeError \<or> array_item repr item c = Inl TypeError"
proof (cases item)
  case (JObj d)
  show ?thesis
  proof (cases "py_truthy (get d ''slug'')")
    case False
    then show ?thesis using assms JObj by (simp add: array_item_def well_formed_item_def)
  next
    case True
    show ?thesis
    proof (cases "is_hashable (get d ''slug'')")
      case False
      then show ?thesis
        using assms JObj True
        by (auto simp add: array_item_def well_formed_item_def dicts_iff Let_def)
    next
      case h: True
      obtain v w r where f: "validated c = JObj v" "websites_found c = JObj w"
          "rejection_notes c = JObj r"
        using assms by (auto simp add: dicts_iff)
      have "if well_formed_item item
            then \<exists>c'. add_website d (get d ''slug'') c1 = Inr c' \<and> dicts c'
                       \<and> batch_num c' = batch_num c
            else add_website d (get d ''slug'') c1 = Inl AttributeError"
        if "dicts c1" "batch_num c1 = batch_num c" for c1
        using add_website_result [OF that(1) h, of d] that(2) JObj True h
        by (auto simp add: well_formed_item_def)
      then show ?thesis
        using JObj True h f
        by (auto simp add: array_item_def Let_def dicts_iff)
    qed
  qed
qed (simp_all add: array_item_def well_formed_item_def)

lemma for_items_result:
  assumes body: "\<And>item c. dicts c \<Longrightarrow>
            (if well_formed_item item
             then \<exists>c'. body item c = Inr c' \<and> dicts c' \<and> batch_num c' = batch_num c
             else body item c = Inl AttributeError \<or> body item c = Inl TypeError)"
    and "dicts c"
  shows "if list_all well_formed_item items
         then \<exists>c'. for_items body items c = Inr c' \<and> dicts c' \<and> batch_num c' = batch_num c
         else for_items body items c = Inl AttributeError \<or> for_items body items c = Inl TypeError"
  using assms(2)
proof (induction items arbitrary: c)
  case Nil
  then show ?case by simp
next
  case (Cons item items)
  show ?case
  proof (cases "well_formed_item item")
    case False
    then show ?thesis using body [OF Cons.prems, of item] by auto
  next
    case True
    then obtain c1 where c1: "body item c = Inr c1" "dicts c1" "batch_num c1 = batch_num c"
      using body [OF Cons.prems, of item] by auto
    show ?thesis
      using Cons.IH [OF c1(2)] True c1 by (auto split: if_splits)
  qed
qed

lemma dicts_initial:
  "dicts \<lparr>batch_num = n, validated = JObj [], websites_found = JObj [], rejection_notes = JObj []\<rparr>"
  by (simp add: dicts_iff)

lemma normalize_checkpoint_cases:
  "if is_canonical data
   then \<exists>c. normalize_checkpoint repr data n = Inr c \<and> batch_num c = n
            \<and> (dict_members data \<longrightarrow> dicts c)
   else if has_results_list data \<or> is_list data
   then if list_all well_formed_item (checkpoint_items data)
        then \<exists>c. normalize_checkpoint repr data n = Inr c \<and> batch_num c = n \<and> dicts c
        else normalize_checkpoint repr data n = Inl AttributeError
             \<or> normalize_checkpoint repr data n = Inl TypeError
   else normalize_checkpoint repr data n = Inl ValueError"
proof -
  note r = for_items_result [of results_item, OF results_item_result dicts_initial [of n]]
  note a = for_items_result [of "array_item repr", OF array_item_result dicts_initial [of n]]
  show ?thesis
  proof (cases data)
    case (JObj d)
    show ?thesis
    proof (cases "is_canonical data")
      case True
      then show ?thesis
        using JObj by (auto simp add: normalize_checkpoint_def is_canonical_def
            dict_members_def dicts_iff split: option.splits json.splits)
    next
      case nc: False
      show ?thesis
      proof (cases "has_results_list data")
        case True
        then obtain items where i: "dict_get d (JStr ''results'') = Some (JArr items)"
          using JObj by (auto simp add: has_results_list_def split: option.splits json.splits)
        have "normalize_checkpoint repr data n
                = for_items results_item items
                    \<lparr>batch_num = n, validated = JObj [], websites_found = JObj [],
                     rejection_notes = JObj []\<rparr>"
          using nc JObj i by (auto simp add: normalize_checkpoint_def is_canonical_def
              split: option.splits json.splits)
        moreover have "checkpoint_items data = items"
          using JObj i by (simp add: checkpoint_items_def)
        ultimately show ?thesis
          using nc True r [of items] by (auto split: if_splits)
      next
        case False
        then show ?thesis
          using nc JObj by (auto simp add: normalize_checkpoint_def is_canonical_def
              has_results_list_def is_list_def split: option.splits json.splits)
      qed
    qed
  next
    case (JArr items)
    then show ?thesis
      using a [of items]
      by (auto simp add: normalize_checkpoint_def is_canonical_def has_results_list_def
            is_list_def checkpoint_items_def split: if_splits)
  qed (simp_all add: normalize_checkpoint_def is_canonical_def has_results_list_def is_list_def)
qed

lemma three_shapes:
  "normalize_checkpoint no_repr canonical_checkpoint 3 = Inr lick_checkpoint"
  "normalize_checkpoint no_repr results_checkpoint 3 = Inr lick_checkpoint"
  "normalize_checkpoint no_repr array_checkpoint 3 = Inr lick_checkpoint"
  by (simp_all add: normalize_checkpoint_def canonical_checkpoint_def results_checkpoint_def
        array_checkpoint_def lick_checkpoint_def py_key_eq_def get_default_def get_def
        results_item_def array_item_def add_website_def py_or_def py_eq_False_def py_eq_True_def
        py_str_def no_repr_def Let_def)




text \<open>
  Claim C10. Whenever \<^verbatim>\<open>normalize_checkpoint\<close> returns, the batch number of the
  result is the argument \<^verbatim>\<open>expected_batch_num\<close>, whatever batch number the input
  carries.
\<close>

theorem normalize_checkpoint_batch_num:
  "normalize_checkpoint repr data expected_batch_num = Inr c \<Longrightarrow> batch_num c = expected_batch_num"
  using normalize_checkpoint_cases [of data repr expected_batch_num]
  by (auto split: if_splits)

theorem normalize_checkpoint_batch_num_witness:
  "normalize_checkpoint no_repr canonical_checkpoint 3 = Inr lick_checkpoint
   \<and> normalize_checkpoint no_repr results_checkpoint 3 = Inr lick_checkpoint
   \<and> normalize_checkpoint no_repr array_checkpoint 3 = Inr lick_checkpoint
   \<and> dict_get (case canonical_checkpoint of JObj d \<Rightarrow> d | _ \<Rightarrow> []) (JStr ''batch_num'')
       = Some (JInt 99)
   \<and> batch_num lick_checkpoint = 3"
  using normalize_checkpoint_batch_num [OF three_shapes(1)] three_shapes
  by (simp add: canonical_checkpoint_def py_key_eq_def)

end
